theory Spec2Isabelle
  imports Main "HOL-Library.Word"
begin

section \<open>Edge-based registration: the data model\<close>

text \<open>
  A shallow embedding of \<^verbatim>\<open>src/core/registration/edgebasedregistration.hpp\<close>
  (class \<^verbatim>\<open>EdgeBasedRegistration\<close>).

  \<^verbatim>\<open>uint\<close> is a 32-bit unsigned integer: \<open>+\<close>, \<open>-\<close> and \<open>*\<close> wrap around.
  The members \<^verbatim>\<open>read_from\<close>, \<^verbatim>\<open>read_to\<close> and \<^verbatim>\<open>read_step\<close> are declared in
  the base class \<^verbatim>\<open>RegistrationAlgorithm\<close>, whose header is not part of the sources; the
  code only ever combines them with \<^verbatim>\<open>uint\<close> values (the loop counter \<^verbatim>\<open>i\<close>,
  \<^verbatim>\<open>read_loop_size\<close>), so they are taken as \<^verbatim>\<open>uint\<close>.
\<close>

type_synonym uint = "32 word"

text \<open>
  What aborts a run. \<open>Invalid_argument\<close> is the \<^verbatim>\<open>std::invalid_argument\<close> of the
  \<^verbatim>\<open>Loop\<close> constructor, \<open>Runtime_error\<close> the \<^verbatim>\<open>std::runtime_error\<close> of
  \<^verbatim>\<open>prepare_all_loops\<close>. The other two are the places where the C++ has undefined
  behaviour: \<^verbatim>\<open>front()\<close> or \<^verbatim>\<open>back()\<close> of an empty vector, and
  \<^verbatim>\<open>operator[]\<close> past the last element of a vector.
\<close>

datatype error = Invalid_argument | Runtime_error | Front_of_empty | Index_out_of_range

text \<open>
  \<^verbatim>\<open>struct Loop : RegistrationAlgorithm::Loop\<close>. The frame, keypoint, matrix and fitness
  score types (\<^verbatim>\<open>Frame\<close>, \<^verbatim>\<open>KeypointsFrame\<close>, \<^verbatim>\<open>Eigen::Matrix4f\<close>, the score)
  are the type parameters \<open>'f\<close>, \<open>'k\<close>, \<open>'m\<close>, \<open>'s\<close>. The last two fields are those of
  the base struct that this file writes (lines 128, 195, 196).
\<close>

record ('f, 'k, 'm, 's) Loop =
  edge_frames_indexes :: "uint \<times> uint"
  edge_frames :: "'f \<times> 'f"
  edge_keypoints :: "'k"
  edge_transformations :: "'m \<times> 'm"
  inner_transformations :: "'m list"
  inner_t_fitness_scores :: "'s list"

text \<open>
  The object's configuration: the constructor's \<^verbatim>\<open>loop_size\<close>
  (\<^verbatim>\<open>EDGE_BASED_RECONSTRUCTION_FIXED_STEP\<close>, an \<^verbatim>\<open>int\<close>), the two settings the
  methods read, and the read range of the base class.
\<close>

record registration =
  loop_size :: int
  EDGE_BALANCING :: bool
  ELCH_LUM :: bool
  read_from :: uint
  read_to :: uint
  read_step :: uint

text \<open>What the aligners and the correctors hand back.\<close>

record ('f, 'k, 'm) sac_result =
  sac_transformations :: "'m list"
  sac_frames :: "'f list"
  sac_keypoints :: "'k list"
  sac_transformed_keypoints :: "'k list"

record ('f, 'k, 'm, 's) icp_result =
  icp_transformations :: "'m list"
  icp_frames :: "'f list"
  icp_transformed_keypoints :: "'k list"
  icp_fitness_scores :: "'s list"

record ('f, 'k, 'm) correction_result =
  correction_transformations :: "'m list"
  correction_frames :: "'f list"
  correction_transformed_keypoints :: "'k list"

text \<open>
  The collaborators whose code is in other headers, as parameters:
  \<^item> \<open>Identity\<close> and \<open>mat_mul\<close>: \<^verbatim>\<open>Eigen::Matrix4f::Identity()\<close> and the matrix
    product \<^verbatim>\<open>operator*\<close> (single-precision arithmetic, kept abstract);
  \<^item> \<open>Frame0\<close>, \<open>Keypoints0\<close>: a default-constructed \<^verbatim>\<open>Frame\<close> and
    \<^verbatim>\<open>KeypointsFrame\<close>;
  \<^item> \<open>Iter from to step\<close>: the frames that \<^verbatim>\<open>Iter(settings, from, to, step)\<close> yields
    until it equals \<^verbatim>\<open>Iter()\<close>;
  \<^item> \<open>balance frames loop_size\<close>: \<^verbatim>\<open>EdgeBalancer::balance\<close>;
  \<^item> \<open>filters_filter\<close>: \<^verbatim>\<open>PcdFilters::setInput\<close> followed by \<^verbatim>\<open>filter\<close>, in place;
  \<^item> \<open>sac_align frames initial\<close>: \<^verbatim>\<open>LinearRegistration<SaCRegistration>\<close>,
    \<^verbatim>\<open>setInput\<close> then \<^verbatim>\<open>align\<close>, with \<^verbatim>\<open>getKeypoints\<close> and
    \<^verbatim>\<open>getTransformedKeypoints\<close>;
  \<^item> \<open>icp_align frames initial keypoints\<close>: \<^verbatim>\<open>LinearRegistration<ICPRegistration>\<close>,
    \<^verbatim>\<open>setInput\<close>, \<^verbatim>\<open>setKeypoints\<close>, \<^verbatim>\<open>align\<close>, with
    \<^verbatim>\<open>getTransformedKeypoints\<close> and \<^verbatim>\<open>getFitnessScores\<close>;
  \<^item> \<open>elch_correct\<close>, \<open>lum_correct\<close> \<open>frames keypoints result_t edge_keypoints\<close>:
    \<^verbatim>\<open>Correction<ElchCorrection>\<close> and \<^verbatim>\<open>Correction<LumCorrection>\<close>,
    \<^verbatim>\<open>setInput\<close> then \<^verbatim>\<open>correct\<close>, with \<^verbatim>\<open>getTransformedKeypoints\<close>.
  Each is a function of its inputs; a collaborator that throws ends the run inside the
  collaborator. The drawing calls (\<^verbatim>\<open>vizualization\<close>) change nothing here.
\<close>

record ('f, 'k, 'm, 's) collaborators =
  Identity :: "'m"
  mat_mul :: "'m \<Rightarrow> 'm \<Rightarrow> 'm"
  Frame0 :: "'f"
  Keypoints0 :: "'k"
  Iter :: "uint \<Rightarrow> uint \<Rightarrow> uint \<Rightarrow> 'f list"
  balance :: "'f list \<Rightarrow> int \<Rightarrow> uint list"
  filters_filter :: "'f list \<Rightarrow> 'f list"
  sac_align :: "'f list \<Rightarrow> 'm \<Rightarrow> ('f, 'k, 'm) sac_result"
  icp_align :: "'f list \<Rightarrow> 'm \<Rightarrow> 'k list \<Rightarrow> ('f, 'k, 'm, 's) icp_result"
  elch_correct :: "'f list \<Rightarrow> 'k list \<Rightarrow> 'm list \<Rightarrow> 'k \<Rightarrow> ('f, 'k, 'm) correction_result"
  lum_correct :: "'f list \<Rightarrow> 'k list \<Rightarrow> 'm list \<Rightarrow> 'k \<Rightarrow> ('f, 'k, 'm) correction_result"

section \<open>The Loop constructor (lines 27-35)\<close>

text \<open>
  The test \<^verbatim>\<open>end_loop_frame_index - start_loop_frame_index == 0\<close> is a \<^verbatim>\<open>uint\<close>
  subtraction. The frames, the keypoints and the fields of the base struct are
  default-constructed.
\<close>

definition Loop_ctor ::
  "('f, 'k, 'm, 's) collaborators \<Rightarrow> uint \<Rightarrow> uint \<Rightarrow> error + ('f, 'k, 'm, 's) Loop" where
  "Loop_ctor w start_loop_frame_index end_loop_frame_index =
     (if end_loop_frame_index - start_loop_frame_index = 0 then Inl Invalid_argument
      else Inr \<lparr>edge_frames_indexes = (start_loop_frame_index, end_loop_frame_index),
                edge_frames = (Frame0 w, Frame0 w),
                edge_keypoints = Keypoints0 w,
                edge_transformations = (Identity w, Identity w),
                inner_transformations = [],
                inner_t_fitness_scores = []\<rparr>)"

section \<open>prepare_all_loops (lines 49-113)\<close>

subsection \<open>Fixed mode (lines 57-65)\<close>

text \<open>
  \<^verbatim>\<open>for (uint i = read_from + read_loop_size; i <= read_to; i += read_loop_size)
    loops.push_back(Loop(i - read_loop_size, i));\<close>
  The counter wraps around, so the loop need not end: not returning is \<open>None\<close>.
\<close>

partial_function (option) fixed_loops ::
  "('f, 'k, 'm, 's) collaborators \<Rightarrow> registration \<Rightarrow> uint \<Rightarrow> uint \<Rightarrow> ('f, 'k, 'm, 's) Loop list
     \<Rightarrow> (error + ('f, 'k, 'm, 's) Loop list) option" where
  "fixed_loops w c read_loop_size i loops =
     (if i \<le> read_to c then
        (case Loop_ctor w (i - read_loop_size) i of
           Inl e \<Rightarrow> Some (Inl e)
         | Inr l \<Rightarrow> fixed_loops w c read_loop_size (i + read_loop_size) (loops @ [l]))
      else Some (Inr loops))"

declare fixed_loops.simps [code]

text \<open>
  \<^verbatim>\<open>read_loop_size = loop_size * read_step\<close> converts the \<^verbatim>\<open>int\<close> to \<^verbatim>\<open>uint\<close>.
\<close>

definition read_loop_size_of :: "registration \<Rightarrow> uint" where
  "read_loop_size_of c = word_of_int (loop_size c) * read_step c"

text \<open>
  The fixed branch: the loops, then \<^verbatim>\<open>loops.front()\<close> and \<^verbatim>\<open>loops.back()\<close>, then the
  edge frames read with the stride \<^verbatim>\<open>read_loop_size\<close>. The result is the member
  \<^verbatim>\<open>loops\<close> and the local \<^verbatim>\<open>edge_frames\<close>.
\<close>

definition fixed_edges ::
  "('f, 'k, 'm, 's) collaborators \<Rightarrow> registration \<Rightarrow> ('f, 'k, 'm, 's) Loop list
     \<Rightarrow> (error + ('f, 'k, 'm, 's) Loop list \<times> 'f list) option" where
  "fixed_edges w c loops0 =
     (let read_loop_size = read_loop_size_of c in
      case fixed_loops w c read_loop_size (read_from c + read_loop_size) loops0 of
        None \<Rightarrow> None
      | Some (Inl e) \<Rightarrow> Some (Inl e)
      | Some (Inr loops) \<Rightarrow>
          (case loops of
             [] \<Rightarrow> Some (Inl Front_of_empty)
           | _ # _ \<Rightarrow>
               let edges_from = fst (edge_frames_indexes (hd loops));
                   edges_to = snd (edge_frames_indexes (last loops))
               in Some (Inr (loops, Iter w edges_from edges_to read_loop_size))))"

subsection \<open>Balanced mode (lines 67-83)\<close>

text \<open>
  \<^verbatim>\<open>for (uint index = 0, edge_index = 0; it != Iter(); ++it, ++index)
    if (index == edge_indices[edge_index]) { edge_frames.push_back(*it); ++edge_index; }\<close>
  The balancer is constructed from a copy of \<^verbatim>\<open>it\<close>, so this loop reads the stream from
  its first frame. \<^verbatim>\<open>edge_indices[edge_index]\<close> is read for every frame, also after the
  last edge index has been matched.
\<close>

fun collect_edge_frames :: "uint list \<Rightarrow> 'f list \<Rightarrow> uint \<Rightarrow> uint \<Rightarrow> 'f list \<Rightarrow> error + 'f list" where
  "collect_edge_frames edge_indices [] index edge_index efs = Inr efs"
| "collect_edge_frames edge_indices (f # it) index edge_index efs =
     (if unat edge_index < length edge_indices then
        (if index = edge_indices ! unat edge_index
         then collect_edge_frames edge_indices it (index + 1) (edge_index + 1) (efs @ [f])
         else collect_edge_frames edge_indices it (index + 1) edge_index efs)
      else Inl Index_out_of_range)"

text \<open>
  \<^verbatim>\<open>for (uint i = 1; i < edge_indices.size(); ++i) {
    from = edge_indices[i - 1] * read_step + read_from;
    to = edge_indices[i] * read_step + read_from;
    loops.push_back(Loop(from, to)); }\<close>
\<close>

function balanced_loops ::
  "('f, 'k, 'm, 's) collaborators \<Rightarrow> registration \<Rightarrow> uint list \<Rightarrow> nat \<Rightarrow> ('f, 'k, 'm, 's) Loop list
     \<Rightarrow> error + ('f, 'k, 'm, 's) Loop list" where
  "balanced_loops w c edge_indices i loops =
     (if i < length edge_indices then
        (case Loop_ctor w (edge_indices ! (i - 1) * read_step c + read_from c)
                          (edge_indices ! i * read_step c + read_from c) of
           Inl e \<Rightarrow> Inl e
         | Inr l \<Rightarrow> balanced_loops w c edge_indices (i + 1) (loops @ [l]))
      else Inr loops)"
  by pat_completeness auto
termination
  by (relation "measure (\<lambda>(w, c, edge_indices, i, loops). length edge_indices - i)") auto

definition balanced_edges ::
  "('f, 'k, 'm, 's) collaborators \<Rightarrow> registration \<Rightarrow> ('f, 'k, 'm, 's) Loop list
     \<Rightarrow> error + ('f, 'k, 'm, 's) Loop list \<times> 'f list" where
  "balanced_edges w c loops0 =
     (let it = Iter w (read_from c) (read_to c) (read_step c);
          edge_indices = balance w it (loop_size c)
      in case collect_edge_frames edge_indices it 0 0 [] of
           Inl e \<Rightarrow> Inl e
         | Inr efs \<Rightarrow>
             (case balanced_loops w c edge_indices 1 loops0 of
                Inl e \<Rightarrow> Inl e
              | Inr loops \<Rightarrow> Inr (loops, efs)))"

subsection \<open>Edge selection and edge-frame collection (lines 56-84)\<close>

definition select_edges ::
  "('f, 'k, 'm, 's) collaborators \<Rightarrow> registration \<Rightarrow> ('f, 'k, 'm, 's) Loop list
     \<Rightarrow> (error + ('f, 'k, 'm, 's) Loop list \<times> 'f list) option" where
  "select_edges w c loops0 =
     (if \<not> EDGE_BALANCING c then fixed_edges w c loops0 else Some (balanced_edges w c loops0))"

subsection \<open>Global edge alignment (lines 90-112)\<close>

text \<open>
  \<^verbatim>\<open>linear_sac\<close> over the filtered edge frames, seeded with the identity, and
  \<^verbatim>\<open>linear_icp\<close> over its transformed frames, seeded with the identity and with
  \<^verbatim>\<open>linear_sac.getTransformedKeypoints()\<close>.
\<close>

definition edge_sac :: "('f, 'k, 'm, 's) collaborators \<Rightarrow> 'f list \<Rightarrow> ('f, 'k, 'm) sac_result" where
  "edge_sac w efs = sac_align w (filters_filter w efs) (Identity w)"

definition edge_icp :: "('f, 'k, 'm, 's) collaborators \<Rightarrow> 'f list \<Rightarrow> ('f, 'k, 'm, 's) icp_result" where
  "edge_icp w efs =
     icp_align w (sac_frames (edge_sac w efs)) (Identity w) (sac_transformed_keypoints (edge_sac w efs))"

text \<open>
  \<^verbatim>\<open>for (uint i = 1; i < icp_t.size(); ++i)\<close> (lines 104-112): every vector is read with
  \<^verbatim>\<open>operator[]\<close>, which does not check its index.
\<close>

function assign_edges ::
  "('f, 'k, 'm, 's) collaborators \<Rightarrow> 'f list \<Rightarrow> 'm list \<Rightarrow> 'm list \<Rightarrow> 'k list \<Rightarrow> nat
     \<Rightarrow> ('f, 'k, 'm, 's) Loop list \<Rightarrow> error + ('f, 'k, 'm, 's) Loop list" where
  "assign_edges w efs icp_t sac_t kp i loops =
     (if i < length icp_t then
        (if i - 1 < length loops \<and> i < length efs \<and> i < length sac_t \<and> i - 1 < length kp then
           assign_edges w efs icp_t sac_t kp (i + 1)
             (loops[i - 1 := (loops ! (i - 1))
                \<lparr>edge_frames := (efs ! (i - 1), efs ! i),
                 edge_transformations :=
                   (mat_mul w (icp_t ! (i - 1)) (sac_t ! (i - 1)), mat_mul w (icp_t ! i) (sac_t ! i)),
                 edge_keypoints := kp ! (i - 1)\<rparr>])
         else Inl Index_out_of_range)
      else Inr loops)"
  by pat_completeness auto
termination
  by (relation "measure (\<lambda>(w, efs, icp_t, sac_t, kp, i, loops). length icp_t - i)") auto

definition global_edge_alignment ::
  "('f, 'k, 'm, 's) collaborators \<Rightarrow> ('f, 'k, 'm, 's) Loop list \<Rightarrow> 'f list
     \<Rightarrow> error + ('f, 'k, 'm, 's) Loop list" where
  "global_edge_alignment w loops efs =
     assign_edges w (filters_filter w efs)
       (icp_transformations (edge_icp w efs)) (sac_transformations (edge_sac w efs))
       (sac_keypoints (edge_sac w efs)) 1 loops"

subsection \<open>The whole method\<close>

text \<open>
  \<open>loops0\<close> is the member \<^verbatim>\<open>loops\<close> when the method starts (empty in a new object);
  the result is the member when it returns.
\<close>

definition prepare_all_loops ::
  "('f, 'k, 'm, 's) collaborators \<Rightarrow> registration \<Rightarrow> ('f, 'k, 'm, 's) Loop list
     \<Rightarrow> (error + ('f, 'k, 'm, 's) Loop list) option" where
  "prepare_all_loops w c loops0 =
     (case select_edges w c loops0 of
        None \<Rightarrow> None
      | Some (Inl e) \<Rightarrow> Some (Inl e)
      | Some (Inr (loops, efs)) \<Rightarrow>
          Some (if length loops + 1 \<noteq> length efs then Inl Runtime_error
                else global_edge_alignment w loops efs))"

section \<open>process_one_loop (lines 147-199)\<close>

subsection \<open>Interior collection and alignment (lines 149-173)\<close>

definition inner_sac ::
  "('f, 'k, 'm, 's) collaborators \<Rightarrow> registration \<Rightarrow> ('f, 'k, 'm, 's) Loop \<Rightarrow> ('f, 'k, 'm) sac_result" where
  "inner_sac w c loop =
     sac_align w
       (filters_filter w
          (Iter w (fst (edge_frames_indexes loop)) (snd (edge_frames_indexes loop)) (read_step c)))
       (fst (edge_transformations loop))"

definition inner_icp ::
  "('f, 'k, 'm, 's) collaborators \<Rightarrow> registration \<Rightarrow> ('f, 'k, 'm, 's) Loop \<Rightarrow> ('f, 'k, 'm, 's) icp_result" where
  "inner_icp w c loop =
     icp_align w (sac_frames (inner_sac w c loop)) (Identity w)
       (sac_transformed_keypoints (inner_sac w c loop))"

text \<open>
  \<^verbatim>\<open>for (uint i = 0; i < icp_t.size(); ++i) result_t.push_back(icp_t[i] * sac_t[i]);\<close>
\<close>

function compose_transformations ::
  "('f, 'k, 'm, 's) collaborators \<Rightarrow> 'm list \<Rightarrow> 'm list \<Rightarrow> nat \<Rightarrow> 'm list \<Rightarrow> error + 'm list" where
  "compose_transformations w icp_t sac_t i result_t =
     (if i < length icp_t then
        (if i < length sac_t then
           compose_transformations w icp_t sac_t (i + 1)
             (result_t @ [mat_mul w (icp_t ! i) (sac_t ! i)])
         else Inl Index_out_of_range)
      else Inr result_t)"
  by pat_completeness auto
termination
  by (relation "measure (\<lambda>(w, icp_t, sac_t, i, result_t). length icp_t - i)") auto

definition interior_alignment ::
  "('f, 'k, 'm, 's) collaborators \<Rightarrow> registration \<Rightarrow> ('f, 'k, 'm, 's) Loop \<Rightarrow> error + 'm list" where
  "interior_alignment w c loop =
     compose_transformations w
       (icp_transformations (inner_icp w c loop)) (sac_transformations (inner_sac w c loop)) 0 []"

subsection \<open>Loop-closure correction (lines 175-190)\<close>

text \<open>
  \<^verbatim>\<open>for (uint i = 1; i < elch_t.size(); ++i) result_t[i] = elch_t[i] * result_t[i];\<close>
  and the same loop for \<^verbatim>\<open>lum_t\<close>. \<^verbatim>\<open>result_t[i]\<close> is not checked against the size of
  \<^verbatim>\<open>result_t\<close>.
\<close>

function apply_correction ::
  "('f, 'k, 'm, 's) collaborators \<Rightarrow> 'm list \<Rightarrow> nat \<Rightarrow> 'm list \<Rightarrow> error + 'm list" where
  "apply_correction w corr_t i result_t =
     (if i < length corr_t then
        (if i < length result_t then
           apply_correction w corr_t (i + 1) (result_t[i := mat_mul w (corr_t ! i) (result_t ! i)])
         else Inl Index_out_of_range)
      else Inr result_t)"
  by pat_completeness auto
termination
  by (relation "measure (\<lambda>(w, corr_t, i, result_t). length corr_t - i)") auto

definition elch_of ::
  "('f, 'k, 'm, 's) collaborators \<Rightarrow> registration \<Rightarrow> ('f, 'k, 'm, 's) Loop \<Rightarrow> 'm list
     \<Rightarrow> ('f, 'k, 'm) correction_result" where
  "elch_of w c loop result_t =
     elch_correct w (icp_frames (inner_icp w c loop)) (icp_transformed_keypoints (inner_icp w c loop))
       result_t (edge_keypoints loop)"

definition lum_of ::
  "('f, 'k, 'm, 's) collaborators \<Rightarrow> ('f, 'k, 'm, 's) Loop \<Rightarrow> ('f, 'k, 'm) correction_result \<Rightarrow> 'm list
     \<Rightarrow> ('f, 'k, 'm) correction_result" where
  "lum_of w loop elch result_t =
     lum_correct w (correction_frames elch) (correction_transformed_keypoints elch)
       result_t (edge_keypoints loop)"

definition loop_closure_correction ::
  "('f, 'k, 'm, 's) collaborators \<Rightarrow> registration \<Rightarrow> ('f, 'k, 'm, 's) Loop \<Rightarrow> 'm list \<Rightarrow> error + 'm list" where
  "loop_closure_correction w c loop result_t =
     (let elch = elch_of w c loop result_t in
      case apply_correction w (correction_transformations elch) 1 result_t of
        Inl e \<Rightarrow> Inl e
      | Inr result_t1 \<Rightarrow>
          apply_correction w (correction_transformations (lum_of w loop elch result_t1)) 1 result_t1)"

subsection \<open>The whole method\<close>

definition process_one_loop ::
  "('f, 'k, 'm, 's) collaborators \<Rightarrow> registration \<Rightarrow> ('f, 'k, 'm, 's) Loop
     \<Rightarrow> error + ('f, 'k, 'm, 's) Loop" where
  "process_one_loop w c loop =
     (case interior_alignment w c loop of
        Inl e \<Rightarrow> Inl e
      | Inr result_t \<Rightarrow>
          (case (if ELCH_LUM c then loop_closure_correction w c loop result_t else Inr result_t) of
             Inl e \<Rightarrow> Inl e
           | Inr result_t' \<Rightarrow>
               Inr (loop\<lparr>inner_transformations := result_t',
                         inner_t_fitness_scores := icp_fitness_scores (inner_icp w c loop)\<rparr>)))"

text \<open>The equations of the index loops are unfolded by hand.\<close>

declare balanced_loops.simps [simp del] assign_edges.simps [simp del]
  compose_transformations.simps [simp del] apply_correction.simps [simp del]

section \<open>Reading a result, and example runs\<close>

text \<open>The boundary indices of a loop as numbers, without the wrap-around.\<close>

definition edge_values :: "('f, 'k, 'm, 's) Loop \<Rightarrow> nat \<times> nat" where
  "edge_values l = (unat (fst (edge_frames_indexes l)), unat (snd (edge_frames_indexes l)))"

text \<open>
  What one turn of the loop of lines 104-112 makes of the loop \<open>l\<close> at index \<open>j\<close>
  (the turn \<open>i = j + 1\<close>).
\<close>

definition aligned_loop ::
  "('f, 'k, 'm, 's) collaborators \<Rightarrow> 'f list \<Rightarrow> 'm list \<Rightarrow> 'm list \<Rightarrow> 'k list \<Rightarrow> nat
     \<Rightarrow> ('f, 'k, 'm, 's) Loop \<Rightarrow> ('f, 'k, 'm, 's) Loop" where
  "aligned_loop w efs icp_t sac_t kp j l =
     l\<lparr>edge_frames := (efs ! j, efs ! (j + 1)),
       edge_transformations :=
         (mat_mul w (icp_t ! j) (sac_t ! j), mat_mul w (icp_t ! (j + 1)) (sac_t ! (j + 1))),
       edge_keypoints := kp ! j\<rparr>"

text \<open>
  Example collaborators. A frame is its index, a matrix is a list of numbers with
  concatenation as the product (not commutative, \<open>[]\<close> the identity), so a composed
  transform shows its factors in order. The frame source yields the frames \<open>from\<close>,
  \<open>from + step\<close>, ... up to \<open>to\<close>; the coarse aligner returns \<open>initial * [f]\<close> for the
  frame \<open>f\<close>, the refining one \<open>initial * [100 + f]\<close>, the correctors \<open>[200 + f]\<close> and
  \<open>[300 + f]\<close>.
\<close>

definition W0 :: "(nat, nat, nat list, nat) collaborators" where
  "W0 = \<lparr>Identity = [], mat_mul = (@), Frame0 = 0, Keypoints0 = 0,
         Iter = (\<lambda>a b s. map (\<lambda>k. unat a + k * unat s) [0..<(unat b - unat a) div unat s + 1]),
         balance = (\<lambda>fs n. []), filters_filter = (\<lambda>fs. fs),
         sac_align = (\<lambda>fs i. \<lparr>sac_transformations = map (\<lambda>f. i @ [f]) fs, sac_frames = fs, sac_keypoints = fs, sac_transformed_keypoints = fs\<rparr>),
         icp_align = (\<lambda>fs i ks. \<lparr>icp_transformations = map (\<lambda>f. i @ [100 + f]) fs, icp_frames = fs, icp_transformed_keypoints = ks, icp_fitness_scores = fs\<rparr>),
         elch_correct = (\<lambda>fs ks ts k. \<lparr>correction_transformations = map (\<lambda>f. [200 + f]) fs, correction_frames = fs, correction_transformed_keypoints = ks\<rparr>),
         lum_correct = (\<lambda>fs ks ts k. \<lparr>correction_transformations = map (\<lambda>f. [300 + f]) fs, correction_frames = fs, correction_transformed_keypoints = ks\<rparr>)\<rparr>"

text \<open>The two fixed-mode configurations of the specification's example.\<close>

definition C100 :: registration where
  "C100 = \<lparr>loop_size = 10, EDGE_BALANCING = False, ELCH_LUM = True,
           read_from = 0, read_to = 100, read_step = 1\<rparr>"

definition C95 :: registration where
  "C95 = \<lparr>loop_size = 10, EDGE_BALANCING = False, ELCH_LUM = True,
           read_from = 0, read_to = 95, read_step = 1\<rparr>"

text \<open>
  More fixed-mode configurations: a range shorter than one loop, a range of three loops, and
  a range at the upper end of the 32-bit numbers. A frame source that yields three frames
  only, and a balancer that picks the positions 0, 2 and 4, with a configuration for it.
  \<open>new_loop a b\<close> is the Loop that the constructor makes from \<open>a\<close> to \<open>b\<close> with the
  example collaborators.
\<close>

definition C_small :: registration where
  "C_small = \<lparr>loop_size = 10, EDGE_BALANCING = False, ELCH_LUM = True,
              read_from = 0, read_to = 5, read_step = 1\<rparr>"

definition C30 :: registration where
  "C30 = \<lparr>loop_size = 10, EDGE_BALANCING = False, ELCH_LUM = True,
          read_from = 0, read_to = 30, read_step = 1\<rparr>"

definition W_gap :: "(nat, nat, nat list, nat) collaborators" where
  "W_gap = W0\<lparr>Iter := (\<lambda>a b s. take 3 (Iter W0 a b s))\<rparr>"

definition W_bal :: "(nat, nat, nat list, nat) collaborators" where
  "W_bal = W0\<lparr>balance := (\<lambda>fs n. [0, 2, 4])\<rparr>"

definition C_bal :: registration where
  "C_bal = \<lparr>loop_size = 2, EDGE_BALANCING = True, ELCH_LUM = True,
            read_from = 0, read_to = 40, read_step = 10\<rparr>"

definition new_loop :: "nat \<Rightarrow> nat \<Rightarrow> (nat, nat, nat list, nat) Loop" where
  "new_loop a b = \<lparr>edge_frames_indexes = (word_of_nat a, word_of_nat b), edge_frames = (0, 0),
     edge_keypoints = 0, edge_transformations = ([], []), inner_transformations = [],
     inner_t_fitness_scores = []\<rparr>"

definition C_wrap :: registration where
  "C_wrap = \<lparr>loop_size = 10, EDGE_BALANCING = False, ELCH_LUM = True,
             read_from = 4294967290, read_to = 4294967294, read_step = 1\<rparr>"

text \<open>
  One loop from frame 10 to frame 40 with stride 10, already placed at \<open>[7]\<close>; the same
  configuration with the correction switched off; and correctors that return fewer
  transforms than the loop has frames (two, and none).
\<close>

definition C_loop :: registration where
  "C_loop = \<lparr>loop_size = 3, EDGE_BALANCING = False, ELCH_LUM = True,
             read_from = 10, read_to = 40, read_step = 10\<rparr>"

definition L14 :: "(nat, nat, nat list, nat) Loop" where
  "L14 = \<lparr>edge_frames_indexes = (10, 40), edge_frames = (10, 40), edge_keypoints = 10,
          edge_transformations = ([7], [8]), inner_transformations = [],
          inner_t_fitness_scores = []\<rparr>"

definition W_short :: "(nat, nat, nat list, nat) collaborators" where
  "W_short = W0
     \<lparr>elch_correct := (\<lambda>fs ks ts k. \<lparr>correction_transformations = [[210], [220]],
          correction_frames = fs, correction_transformed_keypoints = ks\<rparr>),
      lum_correct := (\<lambda>fs ks ts k. \<lparr>correction_transformations = [],
          correction_frames = fs, correction_transformed_keypoints = ks\<rparr>)\<rparr>"

definition C_off :: registration where
  "C_off = C_loop\<lparr>ELCH_LUM := False\<rparr>"

section \<open>The Loop constructor\<close>

lemma Loop_ctor_eq: "Loop_ctor w s s = Inl Invalid_argument"
  by (simp add: Loop_ctor_def)

lemma Loop_ctor_neq:
  "s \<noteq> e \<Longrightarrow> Loop_ctor w s e =
     Inr \<lparr>edge_frames_indexes = (s, e), edge_frames = (Frame0 w, Frame0 w),
          edge_keypoints = Keypoints0 w, edge_transformations = (Identity w, Identity w),
          inner_transformations = [], inner_t_fitness_scores = []\<rparr>"
  by (simp add: Loop_ctor_def)

section \<open>Fixed mode: the loops\<close>

text \<open>One turn of the loop, and its last test.\<close>

lemma fixed_loops_stop:
  "\<not> i \<le> read_to c \<Longrightarrow> fixed_loops w c L i acc = Some (Inr acc)"
  by (subst fixed_loops.simps) simp

lemma fixed_loops_step:
  "i \<le> read_to c \<Longrightarrow> L \<noteq> 0 \<Longrightarrow>
   fixed_loops w c L i acc =
     fixed_loops w c L (i + L)
       (acc @ [\<lparr>edge_frames_indexes = (i - L, i), edge_frames = (Frame0 w, Frame0 w),
          edge_keypoints = Keypoints0 w, edge_transformations = (Identity w, Identity w),
          inner_transformations = [], inner_t_fitness_scores = []\<rparr>])"
  by (subst fixed_loops.simps) (simp add: Loop_ctor_def)

lemma fixed_loops_zero_step:
  "i \<le> read_to c \<Longrightarrow> fixed_loops w c 0 i loops = Some (Inl Invalid_argument)"
  by (subst fixed_loops.simps) (simp add: Loop_ctor_eq)

text \<open>
  Without wrap-around (\<open>read_to + read_loop_size\<close> fits 32 bits) and with a step that is not
  zero the loop ends, after \<open>m\<close> turns, and every loop it adds is \<open>read_loop_size\<close> long.
\<close>

lemma fixed_loops_run:
  fixes L :: uint
  assumes L: "L \<noteq> 0" and nowrap: "unat (read_to c) + unat L < 2 ^ 32"
  shows "m = (unat (read_to c) + unat L - unat i) div unat L \<Longrightarrow>
         unat L \<le> unat i \<Longrightarrow> unat i \<le> unat (read_to c) + unat L \<Longrightarrow>
         \<exists>ls. fixed_loops w c L i acc = Some (Inr (acc @ ls))
            \<and> map edge_values ls =
                map (\<lambda>k. (unat i - unat L + k * unat L, unat i + k * unat L)) [0..<m]"
proof (induction m arbitrary: i acc)
  case 0
  have Lpos: "0 < unat L" using L by (simp add: unat_gt_0)
  from 0 Lpos have "unat (read_to c) + unat L - unat i < unat L"
    by (simp add: div_eq_0_iff)
  then have "\<not> i \<le> read_to c" using Lpos by (simp add: word_le_nat_alt)
  then show ?case using 0 by (simp add: fixed_loops_stop)
next
  case (Suc m)
  have Lpos: "0 < unat L" using L by (simp add: unat_gt_0)
  have ge: "unat L \<le> unat (read_to c) + unat L - unat i"
  proof (rule ccontr)
    assume "\<not> ?thesis"
    then have "(unat (read_to c) + unat L - unat i) div unat L = 0" by simp
    with Suc.prems(1) show False by simp
  qed
  then have le: "unat i \<le> unat (read_to c)" using Suc.prems by linarith
  then have ile: "i \<le> read_to c" by (simp add: word_le_nat_alt)
  have sum: "unat (i + L) = unat i + unat L"
    using le nowrap by (simp add: unat_add_lem [THEN iffD1])
  have sub: "unat (i - L) = unat i - unat L"
    using Suc.prems(2) by (simp add: unat_sub word_le_nat_alt)
  have m: "m = (unat (read_to c) + unat L - unat (i + L)) div unat L"
  proof -
    have "unat (read_to c) + unat L - unat i = (unat (read_to c) + unat L - unat (i + L)) + unat L"
      using sum ge by linarith
    then have "(unat (read_to c) + unat L - unat i) div unat L
               = (unat (read_to c) + unat L - unat (i + L)) div unat L + 1"
      using Lpos div_add_self2 [of "unat L" "unat (read_to c) + unat L - unat (i + L)"] by simp
    with Suc.prems(1) show ?thesis by simp
  qed
  let ?l = "\<lparr>edge_frames_indexes = (i - L, i), edge_frames = (Frame0 w, Frame0 w),
          edge_keypoints = Keypoints0 w, edge_transformations = (Identity w, Identity w),
          inner_transformations = [], inner_t_fitness_scores = []\<rparr> :: ('a, 'b, 'c, 'd) Loop"
  from Suc.IH [OF m, of "acc @ [?l]"] sum le
  obtain ls where ls: "fixed_loops w c L (i + L) (acc @ [?l]) = Some (Inr ((acc @ [?l]) @ ls))"
    and vals: "map edge_values ls =
                map (\<lambda>k. (unat (i + L) - unat L + k * unat L, unat (i + L) + k * unat L)) [0..<m]"
    by auto
  have "fixed_loops w c L i acc = Some (Inr (acc @ (?l # ls)))"
    using fixed_loops_step [OF ile L, of w acc] ls by simp
  moreover have "map edge_values (?l # ls) =
      map (\<lambda>k. (unat i - unat L + k * unat L, unat i + k * unat L)) [0..<Suc m]"
  proof -
    have "[0..<Suc m] = 0 # map Suc [0..<m]"
      by (simp add: upt_conv_Cons map_Suc_upt del: upt_Suc)
    moreover have "edge_values ?l = (unat i - unat L, unat i)"
      by (simp add: edge_values_def sub)
    ultimately show ?thesis
      using vals sum Suc.prems(2) by (simp add: comp_def del: upt_Suc)
  qed
  ultimately show ?case by blast
qed

text \<open>Whenever the loop ends normally, it has not removed a loop.\<close>

lemma fixed_loops_grows_aux:
  assumes "fixed_loops w c L i acc = Some r"
  shows "\<forall>ls. r = Inr ls \<longrightarrow> length acc \<le> length ls"
proof (induction rule: fixed_loops.raw_induct)
  case (1 fl w c L i acc r)
  show ?case
  proof (cases "i \<le> read_to c")
    case False
    with 1(2) show ?thesis by auto
  next
    case True
    show ?thesis
    proof (cases "Loop_ctor w (i - L) i")
      case (Inl e)
      with True 1 show ?thesis by auto
    next
      case (Inr l)
      with True 1(2) have a: "fl w c L (i + L) (acc @ [l]) = Some r" by simp
      from 1(1) [OF a] show ?thesis by auto
    qed
  qed
qed (rule assms)

lemma fixed_loops_grows:
  "fixed_loops w c L i acc = Some (Inr ls) \<Longrightarrow> length acc \<le> length ls"
  using fixed_loops_grows_aux by blast

lemma fixed_loops_all:
  fixes L :: uint
  assumes L: "L \<noteq> 0" and le: "read_from c \<le> read_to c"
    and nowrap: "unat (read_to c) + unat L < 2 ^ 32"
    and n: "n = (unat (read_to c) - unat (read_from c)) div unat L"
  shows "\<exists>loops. fixed_loops w c L (read_from c + L) [] = Some (Inr loops)
           \<and> map edge_values loops =
               map (\<lambda>k. (unat (read_from c) + k * unat L, unat (read_from c) + (k + 1) * unat L)) [0..<n]"
proof -
  have le': "unat (read_from c) \<le> unat (read_to c)" using le by (simp add: word_le_nat_alt)
  have sum: "unat (read_from c + L) = unat (read_from c) + unat L"
    using le' nowrap by (simp add: unat_add_lem [THEN iffD1])
  have m: "n = (unat (read_to c) + unat L - unat (read_from c + L)) div unat L"
    using n sum by simp
  from fixed_loops_run [OF L nowrap m, of w "[]"] sum le'
  show ?thesis by (simp add: add.assoc)
qed

lemma fixed_mode_run:
  fixes L :: uint
  assumes "\<not> EDGE_BALANCING c" and "L = read_loop_size_of c" and "L \<noteq> 0"
    and "read_from c \<le> read_to c" and "unat (read_to c) + unat L < 2 ^ 32"
    and "n = (unat (read_to c) - unat (read_from c)) div unat L"
  shows "\<exists>loops. fixed_loops w c L (read_from c + L) [] = Some (Inr loops)
           \<and> length loops = n
           \<and> map edge_values loops =
               map (\<lambda>k. (unat (read_from c) + k * unat L, unat (read_from c) + (k + 1) * unat L)) [0..<n]
           \<and> unat (read_from c) + n * unat L \<le> unat (read_to c)
           \<and> unat (read_to c) < unat (read_from c) + (n + 1) * unat L
           \<and> select_edges w c [] =
               (if n = 0 then Some (Inl Front_of_empty)
                else Some (Inr (loops,
                  Iter w (read_from c) (read_from c + word_of_nat n * L) L)))"
proof -
  have Lpos: "0 < unat L" using assms(3) by (simp add: unat_gt_0)
  have le': "unat (read_from c) \<le> unat (read_to c)" using assms(4) by (simp add: word_le_nat_alt)
  from fixed_loops_all [OF assms(3) assms(4) assms(5) assms(6), of w]
  obtain loops where run: "fixed_loops w c L (read_from c + L) [] = Some (Inr loops)"
    and vals: "map edge_values loops =
               map (\<lambda>k. (unat (read_from c) + k * unat L, unat (read_from c) + (k + 1) * unat L)) [0..<n]"
    by blast
  have len: "length loops = n"
    using arg_cong [OF vals, of length] by simp
  have below: "unat (read_from c) + n * unat L \<le> unat (read_to c)"
  proof -
    have "n * unat L \<le> unat (read_to c) - unat (read_from c)"
      unfolding assms(6) by simp
    then show ?thesis using le' by linarith
  qed
  have above: "unat (read_to c) < unat (read_from c) + (n + 1) * unat L"
  proof -
    have "(unat (read_to c) - unat (read_from c)) mod unat L < unat L" using Lpos by simp
    moreover have "unat (read_to c) - unat (read_from c)
        = n * unat L + (unat (read_to c) - unat (read_from c)) mod unat L"
      unfolding assms(6) by simp
    ultimately show ?thesis using le' by (simp add: algebra_simps)
  qed
  have sel: "select_edges w c [] =
               (if n = 0 then Some (Inl Front_of_empty)
                else Some (Inr (loops,
                  Iter w (read_from c) (read_from c + word_of_nat n * L) L)))"
  proof (cases "n = 0")
    case True
    with len have "loops = []" by simp
    with True run assms(1,2) show ?thesis
      by (simp add: select_edges_def fixed_edges_def)
  next
    case False
    with len obtain l ls where loops: "loops = l # ls" by (cases loops) auto
    have nth: "edge_values (loops ! k) =
        (unat (read_from c) + k * unat L, unat (read_from c) + (k + 1) * unat L)" if "k < n" for k
    proof -
      have "map edge_values loops ! k =
          map (\<lambda>k. (unat (read_from c) + k * unat L, unat (read_from c) + (k + 1) * unat L)) [0..<n] ! k"
        by (simp only: vals)
      then show ?thesis using that len by simp
    qed
    have "hd loops = loops ! 0" using loops by simp
    with nth [of 0] False have "unat (fst (edge_frames_indexes (hd loops))) = unat (read_from c)"
      by (simp add: edge_values_def)
    then have hd: "fst (edge_frames_indexes (hd loops)) = read_from c"
      by (simp add: word_unat_eq_iff)
    have "loops \<noteq> []" using loops by simp
    then have "last loops = loops ! (n - 1)" unfolding len [symmetric] by (rule last_conv_nth)
    with nth [of "n - 1"] False
    have "unat (snd (edge_frames_indexes (last loops))) = unat (read_from c) + n * unat L"
      by (simp add: edge_values_def)
    then have "word_of_nat (unat (snd (edge_frames_indexes (last loops)))) =
        (word_of_nat (unat (read_from c) + n * unat L) :: uint)"
      by (rule arg_cong)
    then have last: "snd (edge_frames_indexes (last loops)) = read_from c + word_of_nat n * L"
      by simp
    from False run assms(1,2) loops hd last show ?thesis
      by (simp add: select_edges_def fixed_edges_def Let_def)
  qed
  from run len vals below above sel show ?thesis by blast
qed

text \<open>The example frame streams and edge lists, evaluated.\<close>

lemma I100: "Iter W0 0 100 10 = [0, 10, 20, 30, 40, 50, 60, 70, 80, 90, 100]"
  by (simp add: W0_def upt_rec)

lemma m10: "map (\<lambda>k. (k * 10, (k + 1) * 10)) [0..<10::nat] =
          [(0, 10), (10, 20), (20, 30), (30, 40), (40, 50), (50, 60), (60, 70), (70, 80), (80, 90), (90, 100)]"
  by (simp add: upt_rec)

lemma I90: "Iter W0 0 90 10 = [0, 10, 20, 30, 40, 50, 60, 70, 80, 90]"
  by (simp add: W0_def upt_rec)

lemma m9: "map (\<lambda>k. (k * 10, (k + 1) * 10)) [0..<9::nat] =
          [(0, 10), (10, 20), (20, 30), (30, 40), (40, 50), (50, 60), (60, 70), (70, 80), (80, 90)]"
  by (simp add: upt_rec)

section \<open>process_one_loop: the index loops\<close>

text \<open>
  What the composing loop returns when it returns, and that it returns whenever the coarse
  aligner gave at least as many transforms as the refining one.
\<close>

lemma compose_transformations_Inr:
  "compose_transformations w icp_t sac_t i acc = Inr r \<Longrightarrow>
   r = acc @ map (\<lambda>j. mat_mul w (icp_t ! j) (sac_t ! j)) [i..<length icp_t]"
proof (induction w icp_t sac_t i acc rule: compose_transformations.induct)
  case (1 w icp_t sac_t i acc)
  show ?case
  proof (cases "i < length icp_t")
    case False
    with "1.prems" show ?thesis by (simp add: compose_transformations.simps)
  next
    case True
    show ?thesis
    proof (cases "i < length sac_t")
      case False
      with True "1.prems" show ?thesis by (simp add: compose_transformations.simps)
    next
      case inb: True
      from True inb "1.prems"
      have "compose_transformations w icp_t sac_t (i + 1)
              (acc @ [mat_mul w (icp_t ! i) (sac_t ! i)]) = Inr r"
        by (simp add: compose_transformations.simps)
      from "1.IH" [OF True inb this] True show ?thesis
        by (simp add: upt_conv_Cons)
    qed
  qed
qed

lemma compose_transformations_total:
  "length icp_t \<le> length sac_t \<Longrightarrow>
   compose_transformations w icp_t sac_t i acc =
     Inr (acc @ map (\<lambda>j. mat_mul w (icp_t ! j) (sac_t ! j)) [i..<length icp_t])"
proof (induction w icp_t sac_t i acc rule: compose_transformations.induct)
  case (1 w icp_t sac_t i acc)
  show ?case
  proof (cases "i < length icp_t")
    case False
    then show ?thesis by (simp add: compose_transformations.simps)
  next
    case True
    with "1.prems" have inb: "i < length sac_t" by simp
    from "1.IH" [OF True inb "1.prems"] True inb show ?thesis
      by (subst compose_transformations.simps) (simp add: upt_conv_Cons)
  qed
qed

text \<open>
  A correction pass started at \<open>i\<close> changes the indices from \<open>i\<close> up to the length of the
  correction and nothing else; it returns when the correction is not longer than
  \<open>result_t\<close>, and runs past the end of \<open>result_t\<close> otherwise.
\<close>

lemma apply_correction_Inr:
  "apply_correction w corr_t i result_t = Inr r \<Longrightarrow>
   length r = length result_t \<and>
   (\<forall>j<length result_t. r ! j =
      (if i \<le> j \<and> j < length corr_t then mat_mul w (corr_t ! j) (result_t ! j) else result_t ! j))"
proof (induction w corr_t i result_t rule: apply_correction.induct)
  case (1 w corr_t i result_t)
  show ?case
  proof (cases "i < length corr_t")
    case False
    with "1.prems" show ?thesis by (auto simp add: apply_correction.simps)
  next
    case True
    show ?thesis
    proof (cases "i < length result_t")
      case False
      with True "1.prems" show ?thesis by (simp add: apply_correction.simps)
    next
      case inb: True
      let ?r1 = "result_t[i := mat_mul w (corr_t ! i) (result_t ! i)]"
      from True inb "1.prems" have "apply_correction w corr_t (i + 1) ?r1 = Inr r"
        by (simp add: apply_correction.simps)
      from "1.IH" [OF True inb this]
      have len: "length r = length result_t"
        and nth: "\<And>j. j < length result_t \<Longrightarrow> r ! j =
          (if i + 1 \<le> j \<and> j < length corr_t then mat_mul w (corr_t ! j) (?r1 ! j) else ?r1 ! j)"
        by simp_all
      have "r ! j = (if i \<le> j \<and> j < length corr_t then mat_mul w (corr_t ! j) (result_t ! j)
                     else result_t ! j)" if "j < length result_t" for j
      proof (cases "j = i")
        case True
        with nth [OF that] inb \<open>i < length corr_t\<close> show ?thesis by simp
      next
        case False
        then have "(i + 1 \<le> j) = (i \<le> j)" by auto
        with nth [OF that] False show ?thesis by simp
      qed
      with len show ?thesis by simp
    qed
  qed
qed

lemma apply_correction_total:
  "length corr_t \<le> length result_t \<Longrightarrow> \<exists>r. apply_correction w corr_t i result_t = Inr r"
proof (induction w corr_t i result_t rule: apply_correction.induct)
  case (1 w corr_t i result_t)
  show ?case
  proof (cases "i < length corr_t")
    case False
    then show ?thesis by (simp add: apply_correction.simps)
  next
    case True
    with "1.prems" have inb: "i < length result_t" by simp
    from "1.IH" [OF True inb] "1.prems" True inb show ?thesis
      by (subst apply_correction.simps) simp
  qed
qed

lemma apply_correction_overrun:
  "i < length corr_t \<Longrightarrow> i \<le> length result_t \<Longrightarrow> length result_t < length corr_t \<Longrightarrow>
   apply_correction w corr_t i result_t = Inl Index_out_of_range"
proof (induction w corr_t i result_t rule: apply_correction.induct)
  case (1 w corr_t i result_t)
  show ?case
  proof (cases "i < length result_t")
    case False
    with "1.prems" show ?thesis by (simp add: apply_correction.simps)
  next
    case True
    from "1.IH" [OF "1.prems"(1) True] "1.prems" True show ?thesis
      by (subst apply_correction.simps) simp
  qed
qed

lemma interior_alignment_Inr:
  assumes "interior_alignment w c loop = Inr result_t"
  shows "result_t = map (\<lambda>i. mat_mul w (icp_transformations (inner_icp w c loop) ! i)
                                     (sac_transformations (inner_sac w c loop) ! i))
                       [0..<length (icp_transformations (inner_icp w c loop))]"
  using compose_transformations_Inr [OF assms [unfolded interior_alignment_def]] by simp

lemma loop_closure_correction_Inr:
  assumes "loop_closure_correction w c loop result_t = Inr r"
  shows "\<exists>r1. apply_correction w (correction_transformations (elch_of w c loop result_t)) 1 result_t
                 = Inr r1
            \<and> apply_correction w
                 (correction_transformations (lum_of w loop (elch_of w c loop result_t) r1)) 1 r1
                 = Inr r"
  using assms by (auto simp add: loop_closure_correction_def Let_def split: sum.splits)

lemma process_one_loop_Inr:
  assumes "process_one_loop w c loop = Inr loop'"
  shows "\<exists>result_t. interior_alignment w c loop = Inr result_t
           \<and> (if ELCH_LUM c then loop_closure_correction w c loop result_t else Inr result_t)
               = Inr (inner_transformations loop')
           \<and> loop' = loop\<lparr>inner_transformations := inner_transformations loop',
                            inner_t_fitness_scores := icp_fitness_scores (inner_icp w c loop)\<rparr>"
  using assms by (auto simp add: process_one_loop_def split: sum.splits if_splits)

section \<open>The example loop, evaluated\<close>

lemma Iter_10_40: "Iter W0 10 40 10 = [10, 20, 30, 40]"
  by (simp add: W0_def upt_rec)

lemma inner_sac_L14:
  "inner_sac W0 C_loop L14 = \<lparr>sac_transformations = [[7, 10], [7, 20], [7, 30], [7, 40]],
     sac_frames = [10, 20, 30, 40], sac_keypoints = [10, 20, 30, 40],
     sac_transformed_keypoints = [10, 20, 30, 40]\<rparr>"
  unfolding inner_sac_def by (simp add: Iter_10_40 L14_def C_loop_def) (simp add: W0_def)

lemma inner_icp_L14:
  "inner_icp W0 C_loop L14 = \<lparr>icp_transformations = [[110], [120], [130], [140]],
     icp_frames = [10, 20, 30, 40], icp_transformed_keypoints = [10, 20, 30, 40],
     icp_fitness_scores = [10, 20, 30, 40]\<rparr>"
  unfolding inner_icp_def by (simp add: inner_sac_L14) (simp add: W0_def)

lemma mat_mul_W0: "mat_mul W0 a b = a @ b"
  by (simp add: W0_def)

lemma interior_alignment_L14:
  "interior_alignment W0 C_loop L14 = Inr [[110, 7, 10], [120, 7, 20], [130, 7, 30], [140, 7, 40]]"
  by (simp add: interior_alignment_def inner_sac_L14 inner_icp_L14
      compose_transformations.simps mat_mul_W0)

lemma ELCH_LUM_C_loop: "ELCH_LUM C_loop"
  by (simp add: C_loop_def)

lemma elch_L14:
  "correction_transformations (elch_of W0 C_loop L14 r) = [[210], [220], [230], [240]]"
  "correction_frames (elch_of W0 C_loop L14 r) = [10, 20, 30, 40]"
  "correction_transformed_keypoints (elch_of W0 C_loop L14 r) = [10, 20, 30, 40]"
  by (simp_all add: elch_of_def inner_icp_L14) (simp_all add: W0_def)

lemma lum_L14:
  "correction_frames e = [10, 20, 30, 40] \<Longrightarrow>
   correction_transformations (lum_of W0 L14 e r) = [[310], [320], [330], [340]]"
  by (simp add: lum_of_def) (simp add: W0_def)

lemma loop_closure_correction_L14:
  "loop_closure_correction W0 C_loop L14 [[110, 7, 10], [120, 7, 20], [130, 7, 30], [140, 7, 40]] =
     Inr [[110, 7, 10], [320, 220, 120, 7, 20], [330, 230, 130, 7, 30], [340, 240, 140, 7, 40]]"
  by (simp add: loop_closure_correction_def Let_def elch_L14 lum_L14
      apply_correction.simps mat_mul_W0)

lemma process_one_loop_L14:
  "process_one_loop W0 C_loop L14 =
     Inr (L14\<lparr>inner_transformations :=
               [[110, 7, 10], [320, 220, 120, 7, 20], [330, 230, 130, 7, 30], [340, 240, 140, 7, 40]],
             inner_t_fitness_scores := [10, 20, 30, 40]\<rparr>)"
  by (simp add: process_one_loop_def interior_alignment_L14 ELCH_LUM_C_loop
      loop_closure_correction_L14 inner_icp_L14)

lemma inner_C_off:
  "inner_sac w C_off l = inner_sac w C_loop l" "inner_icp w C_off l = inner_icp w C_loop l"
  "interior_alignment w C_off l = interior_alignment w C_loop l"
  by (simp_all add: inner_sac_def inner_icp_def interior_alignment_def C_off_def)

lemma inner_W_short:
  "inner_sac W_short c l = inner_sac W0 c l" "inner_icp W_short c l = inner_icp W0 c l"
proof -
  show a: "inner_sac W_short c l = inner_sac W0 c l"
    by (simp add: inner_sac_def W_short_def)
  show "inner_icp W_short c l = inner_icp W0 c l"
    by (simp add: inner_icp_def a) (simp add: W_short_def)
qed

lemma mat_mul_W_short: "mat_mul W_short a b = a @ b"
  by (simp add: W_short_def W0_def)

lemma interior_alignment_short:
  "interior_alignment W_short C_loop L14 =
     Inr [[110, 7, 10], [120, 7, 20], [130, 7, 30], [140, 7, 40]]"
  by (simp add: interior_alignment_def inner_W_short inner_sac_L14 inner_icp_L14
      compose_transformations.simps mat_mul_W_short)

lemma process_one_loop_short:
  "process_one_loop W_short C_loop L14 =
     Inr (L14\<lparr>inner_transformations :=
               [[110, 7, 10], [220, 120, 7, 20], [130, 7, 30], [140, 7, 40]],
             inner_t_fitness_scores := [10, 20, 30, 40]\<rparr>)"
proof -
  have e: "correction_transformations (elch_of W_short C_loop L14 r) = [[210], [220]]" for r
    by (simp add: elch_of_def W_short_def)
  have l: "correction_transformations (lum_of W_short L14 e r) = []" for e r
    by (simp add: lum_of_def W_short_def)
  have "loop_closure_correction W_short C_loop L14
          [[110, 7, 10], [120, 7, 20], [130, 7, 30], [140, 7, 40]] =
        Inr [[110, 7, 10], [220, 120, 7, 20], [130, 7, 30], [140, 7, 40]]"
    by (simp add: loop_closure_correction_def Let_def e l apply_correction.simps mat_mul_W_short)
  then show ?thesis
    by (simp add: process_one_loop_def inner_W_short interior_alignment_short ELCH_LUM_C_loop
        inner_icp_L14)
qed

lemma apply_correction_example:
  "apply_correction W0 [[210], [220], [230], [240]] 1
     [[110, 7, 10], [120, 7, 20], [130, 7, 30], [140, 7, 40]] =
   Inr [[110, 7, 10], [210 + 10, 120, 7, 20], [230, 130, 7, 30], [240, 140, 7, 40]]"
  by (simp add: apply_correction.simps mat_mul_W0)

section \<open>prepare_all_loops: edge selection and edge alignment\<close>

text \<open>
  The fixed loop ends abnormally only with the constructor's exception, and it depends on
  the collaborators only through the constructor; so does the loop of the balanced mode.
\<close>

lemma fixed_loops_error_aux:
  assumes "fixed_loops w c L i acc = Some r"
  shows "\<forall>e. r = Inl e \<longrightarrow> e = Invalid_argument"
proof (induction rule: fixed_loops.raw_induct)
  case (1 fl w c L i acc r)
  show ?case
  proof (cases "i \<le> read_to c")
    case False
    with 1(2) show ?thesis by auto
  next
    case True
    show ?thesis
    proof (cases "Loop_ctor w (i - L) i")
      case (Inl e)
      then have "e = Invalid_argument" by (simp add: Loop_ctor_def split: if_splits)
      with Inl True 1(2) show ?thesis by auto
    next
      case (Inr l)
      with True 1(2) have a: "fl w c L (i + L) (acc @ [l]) = Some r" by simp
      from 1(1) [OF a] show ?thesis by auto
    qed
  qed
qed (rule assms)

lemma fixed_loops_error:
  "fixed_loops w c L i acc = Some (Inl e) \<Longrightarrow> e = Invalid_argument"
  using fixed_loops_error_aux by blast

lemma fixed_loops_mono_aux:
  assumes "fixed_loops w c L i acc = Some r"
  shows "\<forall>w'. (\<forall>s e. Loop_ctor w' s e = Loop_ctor w s e) \<longrightarrow> fixed_loops w' c L i acc = Some r"
proof (induction rule: fixed_loops.raw_induct)
  case (1 fl w c L i acc r)
  show ?case
  proof (intro allI impI)
    fix w' :: "('a, 'b, 'c, 'd) collaborators"
    assume eq: "\<forall>s e. Loop_ctor w' s e = Loop_ctor w s e"
    show "fixed_loops w' c L i acc = Some r"
    proof (cases "i \<le> read_to c")
      case False
      with 1(2) show ?thesis by (subst fixed_loops.simps) auto
    next
      case True
      show ?thesis
      proof (cases "Loop_ctor w (i - L) i")
        case (Inl e)
        with True 1(2) eq show ?thesis by (subst fixed_loops.simps) auto
      next
        case (Inr l)
        with True 1(2) have a: "fl w c L (i + L) (acc @ [l]) = Some r" by simp
        from 1(1) [OF a] eq have "fixed_loops w' c L (i + L) (acc @ [l]) = Some r" by blast
        with Inr True eq show ?thesis by (subst fixed_loops.simps) simp
      qed
    qed
  qed
qed (rule assms)

lemma fixed_loops_cong:
  assumes "\<forall>s e. Loop_ctor w' s e = Loop_ctor w s e"
  shows "fixed_loops w' c L i acc = fixed_loops w c L i acc"
proof (cases "fixed_loops w c L i acc")
  case (Some r)
  from fixed_loops_mono_aux [OF Some] assms Some show ?thesis by simp
next
  case None
  show ?thesis
  proof (cases "fixed_loops w' c L i acc")
    case (Some r)
    from assms have "\<forall>s e. Loop_ctor w s e = Loop_ctor w' s e" by simp
    with fixed_loops_mono_aux [OF Some] have "fixed_loops w c L i acc = Some r" by blast
    with None show ?thesis by simp
  next
    case n: None
    with None show ?thesis by simp
  qed
qed

lemma balanced_loops_cong:
  "\<forall>s e. Loop_ctor w' s e = Loop_ctor w s e \<Longrightarrow>
   balanced_loops w' c edge_indices i loops = balanced_loops w c edge_indices i loops"
proof (induction w c edge_indices i loops rule: balanced_loops.induct)
  case (1 w c edge_indices i loops)
  note eq = "1.prems"
  show ?case
  proof (cases "i < length edge_indices")
    case False
    then show ?thesis by (simp add: balanced_loops.simps)
  next
    case True
    have l: "balanced_loops w' c edge_indices i loops =
        (case Loop_ctor w (edge_indices ! (i - 1) * read_step c + read_from c)
                          (edge_indices ! i * read_step c + read_from c) of
           Inl e \<Rightarrow> Inl e
         | Inr l \<Rightarrow> balanced_loops w' c edge_indices (i + 1) (loops @ [l]))"
      using True by (subst balanced_loops.simps) (simp add: eq)
    have r: "balanced_loops w c edge_indices i loops =
        (case Loop_ctor w (edge_indices ! (i - 1) * read_step c + read_from c)
                          (edge_indices ! i * read_step c + read_from c) of
           Inl e \<Rightarrow> Inl e
         | Inr l \<Rightarrow> balanced_loops w c edge_indices (i + 1) (loops @ [l]))"
      using True by (subst balanced_loops.simps) simp
    show ?thesis
    proof (cases "Loop_ctor w (edge_indices ! (i - 1) * read_step c + read_from c)
                          (edge_indices ! i * read_step c + read_from c)")
      case (Inl e)
      then show ?thesis unfolding l r by simp
    next
      case (Inr x)
      from "1.IH" [OF True Inr eq] Inr show ?thesis unfolding l r by simp
    qed
  qed
qed

text \<open>
  The loop of lines 104-112, started at \<open>i \<ge> 1\<close>, rewrites the loops \<open>i - 1\<close> up to
  \<open>icp_t.size() - 2\<close> and no other; it fails only by reading past the end of a vector.
\<close>

lemma assign_edges_Inr:
  "assign_edges w efs icp_t sac_t kp i loops = Inr r \<Longrightarrow> 1 \<le> i \<Longrightarrow>
   length r = length loops \<and>
   (\<forall>j<length loops. r ! j =
      (if i - 1 \<le> j \<and> j + 1 < length icp_t
       then aligned_loop w efs icp_t sac_t kp j (loops ! j) else loops ! j))"
proof (induction w efs icp_t sac_t kp i loops rule: assign_edges.induct)
  case (1 w efs icp_t sac_t kp i loops)
  show ?case
  proof (cases "i < length icp_t")
    case False
    with "1.prems" show ?thesis by (auto simp add: assign_edges.simps)
  next
    case True
    show ?thesis
    proof (cases "i - 1 < length loops \<and> i < length efs \<and> i < length sac_t \<and> i - 1 < length kp")
      case False
      with True "1.prems"(1) have False
        by (subst (asm) assign_edges.simps) (simp only: if_True if_False sum.distinct)
      then show ?thesis ..
    next
      case inb: True
      let ?l1 = "loops[i - 1 := aligned_loop w efs icp_t sac_t kp (i - 1) (loops ! (i - 1))]"
      from "1.prems"(2) have i1: "i - 1 + 1 = i" "Suc (i - Suc 0) = i" by simp_all
      from True inb "1.prems"(1)
      have run: "assign_edges w efs icp_t sac_t kp (i + 1) ?l1 = Inr r"
        by (simp add: assign_edges.simps [of w efs icp_t sac_t kp i] aligned_loop_def i1)
      have "assign_edges w efs icp_t sac_t kp (i + 1)
          (loops[i - 1 := (loops ! (i - 1))
                \<lparr>edge_frames := (efs ! (i - 1), efs ! i),
                 edge_transformations :=
                   (mat_mul w (icp_t ! (i - 1)) (sac_t ! (i - 1)), mat_mul w (icp_t ! i) (sac_t ! i)),
                 edge_keypoints := kp ! (i - 1)\<rparr>]) = Inr r"
        using run by (simp add: aligned_loop_def i1)
      from "1.IH" [OF True inb this]
      have len: "length r = length loops"
        and nth: "\<And>j. j < length loops \<Longrightarrow> r ! j =
          (if i \<le> j \<and> j + 1 < length icp_t
           then aligned_loop w efs icp_t sac_t kp j (?l1 ! j) else ?l1 ! j)"
        by (simp_all add: aligned_loop_def i1)
      have "r ! j = (if i - 1 \<le> j \<and> j + 1 < length icp_t
                     then aligned_loop w efs icp_t sac_t kp j (loops ! j) else loops ! j)"
        if "j < length loops" for j
      proof (cases "j = i - 1")
        case True
        with nth [OF that] inb \<open>i < length icp_t\<close> "1.prems"(2) show ?thesis by simp
      next
        case False
        with "1.prems"(2) have "(i \<le> j) = (i - 1 \<le> j)" by auto
        with nth [OF that] False show ?thesis by simp
      qed
      with len show ?thesis by simp
    qed
  qed
qed

lemma assign_edges_error:
  "assign_edges w efs icp_t sac_t kp i loops = Inl e \<Longrightarrow> e = Index_out_of_range"
proof (induction w efs icp_t sac_t kp i loops rule: assign_edges.induct)
  case (1 w efs icp_t sac_t kp i loops)
  show ?case
  proof (cases "i < length icp_t")
    case False
    with "1.prems" show ?thesis by (simp add: assign_edges.simps)
  next
    case True
    show ?thesis
    proof (cases "i - 1 < length loops \<and> i < length efs \<and> i < length sac_t \<and> i - 1 < length kp")
      case False
      with True "1.prems" have "Inl Index_out_of_range = (Inl e :: error + ('a, 'b, 'c, 'd) Loop list)"
        by (subst (asm) assign_edges.simps) (simp only: if_True if_False)
      then show ?thesis by simp
    next
      case inb: True
      from True inb "1.prems"
      have "assign_edges w efs icp_t sac_t kp (i + 1)
          (loops[i - 1 := (loops ! (i - 1))
                \<lparr>edge_frames := (efs ! (i - 1), efs ! i),
                 edge_transformations :=
                   (mat_mul w (icp_t ! (i - 1)) (sac_t ! (i - 1)), mat_mul w (icp_t ! i) (sac_t ! i)),
                 edge_keypoints := kp ! (i - 1)\<rparr>]) = Inl e"
        by (simp add: assign_edges.simps [of w efs icp_t sac_t kp i])
      from "1.IH" [OF True inb this] show ?thesis .
    qed
  qed
qed

lemma assign_edges_total:
  "length icp_t \<le> length loops + 1 \<Longrightarrow> length icp_t \<le> length efs \<Longrightarrow>
   length icp_t \<le> length sac_t \<Longrightarrow> length icp_t \<le> length kp + 1 \<Longrightarrow> 1 \<le> i \<Longrightarrow>
   \<exists>r. assign_edges w efs icp_t sac_t kp i loops = Inr r"
proof (induction w efs icp_t sac_t kp i loops rule: assign_edges.induct)
  case (1 w efs icp_t sac_t kp i loops)
  show ?case
  proof (cases "i < length icp_t")
    case False
    then show ?thesis by (simp add: assign_edges.simps)
  next
    case True
    with "1.prems"
    have inb: "i - 1 < length loops \<and> i < length efs \<and> i < length sac_t \<and> i - 1 < length kp"
      by auto
    from "1.IH" [OF True inb] "1.prems" True inb show ?thesis
      by (subst assign_edges.simps) simp
  qed
qed

lemma global_edge_alignment_error:
  "global_edge_alignment w loops efs = Inl e \<Longrightarrow> e = Index_out_of_range"
  unfolding global_edge_alignment_def by (rule assign_edges_error)

lemma prepare_all_loops_no_front:
  assumes "select_edges w c ls \<noteq> Some (Inl Front_of_empty)"
  shows "prepare_all_loops w c ls \<noteq> Some (Inl Front_of_empty)"
proof (cases "select_edges w c ls")
  case None
  then show ?thesis by (simp add: prepare_all_loops_def)
next
  case (Some r)
  show ?thesis
  proof (cases r)
    case (Inl e)
    with Some assms show ?thesis by (simp add: prepare_all_loops_def)
  next
    case (Inr p)
    obtain loops efs where p: "p = (loops, efs)" by (cases p)
    show ?thesis
    proof (cases "global_edge_alignment w loops efs")
      case (Inl e)
      from global_edge_alignment_error [OF Inl] Inl Some Inr p show ?thesis
        by (simp add: prepare_all_loops_def)
    next
      case r: (Inr x)
      with Some Inr p show ?thesis by (simp add: prepare_all_loops_def)
    qed
  qed
qed

lemma fixed_edges_no_front:
  fixes L :: uint
  assumes L: "L = read_loop_size_of c" and le: "unat (read_from c) + unat L \<le> unat (read_to c)"
  shows "fixed_edges w c [] \<noteq> Some (Inl Front_of_empty)"
proof -
  have "unat (read_from c) + unat L < 2 ^ 32"
    using le unsigned_less [of "read_to c", where 'a = nat] by simp
  then have sum: "unat (read_from c + L) = unat (read_from c) + unat L"
    by (simp add: unat_add_lem [THEN iffD1])
  with le have ile: "read_from c + L \<le> read_to c" by (simp add: word_le_nat_alt)
  show ?thesis
  proof (cases "L = 0")
    case True
    with ile have "fixed_loops w c L (read_from c + L) [] = Some (Inl Invalid_argument)"
      using fixed_loops_zero_step [of "read_from c" c w "[]"] by simp
    then show ?thesis using L by (simp add: fixed_edges_def)
  next
    case False
    let ?l = "\<lparr>edge_frames_indexes = (read_from c + L - L, read_from c + L),
          edge_frames = (Frame0 w, Frame0 w),
          edge_keypoints = Keypoints0 w, edge_transformations = (Identity w, Identity w),
          inner_transformations = [], inner_t_fitness_scores = []\<rparr> :: ('a, 'b, 'c, 'd) Loop"
    have step: "fixed_loops w c L (read_from c + L) [] =
        fixed_loops w c L (read_from c + L + L) [?l]"
      using fixed_loops_step [OF ile False, of w "[]"] by simp
    show ?thesis
    proof (cases "fixed_loops w c L (read_from c + L + L) [?l]")
      case None
      with step L show ?thesis by (simp add: fixed_edges_def)
    next
      case (Some r)
      show ?thesis
      proof (cases r)
        case (Inl e)
        with Some fixed_loops_error [of w c L "read_from c + L + L" "[?l]" e]
        have "e = Invalid_argument" by simp
        with Inl Some step L show ?thesis by (simp add: fixed_edges_def)
      next
        case (Inr loops)
        with Some fixed_loops_grows [of w c L "read_from c + L + L" "[?l]" loops]
        have "1 \<le> length loops" by simp
        then obtain a b where "loops = a # b" by (cases loops) auto
        with Inr Some step L show ?thesis by (simp add: fixed_edges_def Let_def)
      qed
    qed
  qed
qed

lemma prepare_all_loops_Inr:
  assumes "prepare_all_loops w c ls = Some (Inr loops')"
  shows "\<exists>loops efs. select_edges w c ls = Some (Inr (loops, efs))
           \<and> length loops + 1 = length efs
           \<and> global_edge_alignment w loops efs = Inr loops'"
  using assms
  by (auto simp add: prepare_all_loops_def split: option.splits sum.splits if_splits)

lemma global_edge_alignment_Inr:
  assumes "global_edge_alignment w loops efs = Inr loops'"
  shows "length loops' = length loops \<and>
   (\<forall>j<length loops. loops' ! j =
      (if j + 1 < length (icp_transformations (edge_icp w efs))
       then aligned_loop w (filters_filter w efs) (icp_transformations (edge_icp w efs))
              (sac_transformations (edge_sac w efs)) (sac_keypoints (edge_sac w efs)) j (loops ! j)
       else loops ! j))"
  using assign_edges_Inr [OF assms [unfolded global_edge_alignment_def]] by simp

lemma Loop_ctor_update:
  "Loop_ctor (w\<lparr>filters_filter := f, sac_align := s, icp_align := a\<rparr>) x y = Loop_ctor w x y"
  "Loop_ctor (w\<lparr>Iter := it\<rparr>) x y = Loop_ctor w x y"
  "Loop_ctor (w\<lparr>balance := b\<rparr>) x y = Loop_ctor w x y"
  by (simp_all add: Loop_ctor_def)

lemma select_edges_update:
  "select_edges (w\<lparr>filters_filter := f, sac_align := s, icp_align := a\<rparr>) c ls = select_edges w c ls"
proof -
  let ?w = "w\<lparr>filters_filter := f, sac_align := s, icp_align := a\<rparr>"
  have eq: "\<forall>x y. Loop_ctor ?w x y = Loop_ctor w x y" by (simp add: Loop_ctor_update)
  have "fixed_edges ?w c ls = fixed_edges w c ls"
    by (simp add: fixed_edges_def fixed_loops_cong [OF eq] Let_def
        cong: option.case_cong sum.case_cong list.case_cong)
  moreover have "balanced_edges ?w c ls = balanced_edges w c ls"
    by (simp add: balanced_edges_def balanced_loops_cong [OF eq] Let_def
        cong: sum.case_cong)
  ultimately show ?thesis by (simp add: select_edges_def)
qed

section \<open>The example preparations, evaluated\<close>

lemma fixed_loops_C30:
  "fixed_loops W0 C30 10 10 [] = Some (Inr [new_loop 0 10, new_loop 10 20, new_loop 20 30])"
  by (simp add: fixed_loops.simps Loop_ctor_def C30_def new_loop_def) (simp add: W0_def)

lemma Iter_0_30: "Iter W0 0 30 10 = [0, 10, 20, 30]"
  by (simp add: W0_def upt_rec)

lemma select_edges_C30:
  "select_edges W0 C30 [] =
     Some (Inr ([new_loop 0 10, new_loop 10 20, new_loop 20 30], [0, 10, 20, 30]))"
  by (simp add: select_edges_def fixed_edges_def read_loop_size_of_def Let_def)
     (simp add: C30_def fixed_loops_C30 [unfolded C30_def] new_loop_def Iter_0_30)

lemma select_edges_gap:
  "select_edges W_gap C30 [] =
     Some (Inr ([new_loop 0 10, new_loop 10 20, new_loop 20 30], [0, 10, 20]))"
proof -
  have eq: "\<forall>x y. Loop_ctor W_gap x y = Loop_ctor W0 x y"
    by (simp add: W_gap_def Loop_ctor_update)
  have it: "Iter W_gap 0 30 10 = [0, 10, 20]"
    by (simp add: W_gap_def Iter_0_30)
  show ?thesis
    by (simp add: select_edges_def fixed_edges_def read_loop_size_of_def Let_def
          fixed_loops_cong [OF eq])
       (simp add: C30_def fixed_loops_C30 [unfolded C30_def] new_loop_def it)
qed

lemma select_edges_bal:
  "select_edges W_bal C_bal [] = Some (Inr ([new_loop 0 20, new_loop 20 40], [0, 20, 40]))"
proof -
  have it: "Iter W_bal 0 40 10 = [0, 10, 20, 30, 40]"
    by (simp add: W_bal_def W0_def upt_rec)
  have b: "balance W_bal fs n = [0, 2, 4]" for fs n
    by (simp add: W_bal_def)
  have c: "collect_edge_frames [0, 2, 4] [0, 10, 20, 30, 40::nat] 0 0 [] = Inr [0, 20, 40]"
    by simp
  have l: "balanced_loops W_bal C_bal [0, 2, 4] (Suc 0) [] = Inr [new_loop 0 20, new_loop 20 40]"
    by (simp add: balanced_loops.simps Loop_ctor_def C_bal_def new_loop_def)
       (simp add: W_bal_def W0_def)
  show ?thesis
    by (simp add: select_edges_def balanced_edges_def Let_def)
       (simp add: C_bal_def it b c l [unfolded C_bal_def])
qed

lemma edge_aligners_W0:
  "sac_transformations (edge_sac W0 [0, 10, 20, 30]) = [[0], [10], [20], [30]]"
  "icp_transformations (edge_icp W0 [0, 10, 20, 30]) = [[100], [110], [120], [130]]"
  by (simp_all add: edge_sac_def edge_icp_def W0_def)

lemma global_edge_alignment_C30:
  "global_edge_alignment W0 [new_loop 0 10, new_loop 10 20, new_loop 20 30] [0, 10, 20, 30] =
     Inr [(new_loop 0 10)\<lparr>edge_frames := (0, 10), edge_keypoints := 0,
             edge_transformations := ([100, 0], [110, 10])\<rparr>,
          (new_loop 10 20)\<lparr>edge_frames := (10, 20), edge_keypoints := 10,
             edge_transformations := ([110, 10], [120, 20])\<rparr>,
          (new_loop 20 30)\<lparr>edge_frames := (20, 30), edge_keypoints := 20,
             edge_transformations := ([120, 20], [130, 30])\<rparr>]"
  by (simp add: global_edge_alignment_def edge_sac_def edge_icp_def assign_edges.simps
      W0_def new_loop_def)

lemma prepare_all_loops_C30:
  "prepare_all_loops W0 C30 [] =
     Some (Inr [(new_loop 0 10)\<lparr>edge_frames := (0, 10), edge_keypoints := 0,
             edge_transformations := ([100, 0], [110, 10])\<rparr>,
          (new_loop 10 20)\<lparr>edge_frames := (10, 20), edge_keypoints := 10,
             edge_transformations := ([110, 10], [120, 20])\<rparr>,
          (new_loop 20 30)\<lparr>edge_frames := (20, 30), edge_keypoints := 20,
             edge_transformations := ([120, 20], [130, 30])\<rparr>])"
  by (simp add: prepare_all_loops_def select_edges_C30 global_edge_alignment_C30)

lemma prepare_all_loops_bal:
  "prepare_all_loops W_bal C_bal [] =
     Some (Inr [(new_loop 0 20)\<lparr>edge_frames := (0, 20), edge_keypoints := 0,
             edge_transformations := ([100, 0], [120, 20])\<rparr>,
          (new_loop 20 40)\<lparr>edge_frames := (20, 40), edge_keypoints := 20,
             edge_transformations := ([120, 20], [140, 40])\<rparr>])"
  by (simp add: prepare_all_loops_def select_edges_bal)
     (simp add: global_edge_alignment_def edge_sac_def edge_icp_def assign_edges.simps
      W_bal_def W0_def new_loop_def)

text \<open>
  Where \<open>read_from + read_loop_size\<close> wraps around: the range is shorter than one loop, the
  first candidate edge is 4, which is below \<open>read_to\<close>, and the loop does not end with no
  Loop. This is why the statements below about short ranges ask that the sum fits 32 bits.
\<close>

lemma fixed_loops_wrap_example:
  "read_loop_size_of C_wrap = 10
   \<and> int (unat (read_to C_wrap)) - int (unat (read_from C_wrap)) < int (unat (10::uint))
   \<and> read_from C_wrap + 10 = 4
   \<and> fixed_loops W0 C_wrap 10 4 [] \<noteq> Some (Inr [])"
proof (intro conjI)
  show "read_loop_size_of C_wrap = 10"
    by (simp add: C_wrap_def read_loop_size_of_def)
  show "int (unat (read_to C_wrap)) - int (unat (read_from C_wrap)) < int (unat (10::uint))"
    by (simp add: C_wrap_def)
  show "read_from C_wrap + 10 = 4"
    by (simp add: C_wrap_def)
  have "(4::uint) \<le> read_to C_wrap" by (simp add: C_wrap_def)
  note step = fixed_loops_step [OF this, of 10 W0 "[]"]
  show "fixed_loops W0 C_wrap 10 4 [] \<noteq> Some (Inr [])"
  proof
    assume "fixed_loops W0 C_wrap 10 4 [] = Some (Inr [])"
    with step have "fixed_loops W0 C_wrap 10 (4 + 10)
       ([] @ [\<lparr>edge_frames_indexes = (4 - 10, 4), edge_frames = (Frame0 W0, Frame0 W0),
          edge_keypoints = Keypoints0 W0, edge_transformations = (Identity W0, Identity W0),
          inner_transformations = [], inner_t_fitness_scores = []\<rparr>]) = Some (Inr [])"
      by simp
    from fixed_loops_grows [OF this] show False by simp
  qed
qed

section \<open>The claims\<close>

text \<open>
  C1. In fixed mode, with \<open>L = loop_size * read_step\<close> not zero, a range with
  \<open>read_from \<le> read_to\<close> and no 32-bit wrap-around, the loop of lines 57-59 ends and
  creates exactly \<open>n = (read_to - read_from) div L\<close> loops, the \<open>k\<close>-th from
  \<open>read_from + k * L\<close> to \<open>read_from + (k + 1) * L\<close>: the edges are \<open>read_from\<close>,
  \<open>read_from + L\<close>, ... while the candidate is at most \<open>read_to\<close>. The last edge
  \<open>read_from + n * L\<close> is at most \<open>read_to\<close> and the next candidate is beyond it, so the
  remainder is dropped and no shorter last loop is made. The edge frames are then read from
  \<open>read_from\<close> to the last edge with the stride \<open>L\<close> (when there is a loop at all).
\<close>

theorem fixed_mode_edge_indices:
  fixes L :: uint
  assumes "\<not> EDGE_BALANCING c" and "L = read_loop_size_of c" and "L \<noteq> 0"
    and "read_from c \<le> read_to c" and "unat (read_to c) + unat L < 2 ^ 32"
    and "n = (unat (read_to c) - unat (read_from c)) div unat L"
  shows "\<exists>loops. fixed_loops w c L (read_from c + L) [] = Some (Inr loops)
           \<and> length loops = n
           \<and> map edge_values loops =
               map (\<lambda>k. (unat (read_from c) + k * unat L, unat (read_from c) + (k + 1) * unat L)) [0..<n]
           \<and> unat (read_from c) + n * unat L \<le> unat (read_to c)
           \<and> unat (read_to c) < unat (read_from c) + (n + 1) * unat L
           \<and> select_edges w c [] =
               (if n = 0 then Some (Inl Front_of_empty)
                else Some (Inr (loops, Iter w (read_from c) (read_from c + word_of_nat n * L) L)))"
  using assms by (rule fixed_mode_run)

theorem fixed_mode_edge_indices_witness:
  "(\<exists>loops. fixed_loops W0 C100 10 10 [] = Some (Inr loops)
      \<and> length loops = 10
      \<and> map edge_values loops =
          [(0, 10), (10, 20), (20, 30), (30, 40), (40, 50), (50, 60), (60, 70), (70, 80), (80, 90), (90, 100)]
      \<and> select_edges W0 C100 [] = Some (Inr (loops, [0, 10, 20, 30, 40, 50, 60, 70, 80, 90, 100])))
   \<and> (\<exists>loops. fixed_loops W0 C95 10 10 [] = Some (Inr loops)
      \<and> length loops = 9
      \<and> map edge_values loops =
          [(0, 10), (10, 20), (20, 30), (30, 40), (40, 50), (50, 60), (60, 70), (70, 80), (80, 90)]
      \<and> select_edges W0 C95 [] = Some (Inr (loops, [0, 10, 20, 30, 40, 50, 60, 70, 80, 90])))"
proof -
  have "\<exists>loops. fixed_loops W0 C100 10 (read_from C100 + 10) [] = Some (Inr loops)
           \<and> length loops = 10
           \<and> map edge_values loops =
               map (\<lambda>k. (unat (read_from C100) + k * unat (10::uint), unat (read_from C100) + (k + 1) * unat (10::uint))) [0..<10]
           \<and> unat (read_from C100) + 10 * unat (10::uint) \<le> unat (read_to C100)
           \<and> unat (read_to C100) < unat (read_from C100) + (10 + 1) * unat (10::uint)
           \<and> select_edges W0 C100 [] =
               (if (10::nat) = 0 then Some (Inl Front_of_empty)
                else Some (Inr (loops, Iter W0 (read_from C100) (read_from C100 + word_of_nat 10 * 10) 10)))"
    by (rule fixed_mode_edge_indices [where c = C100 and L = 10 and n = 10 and w = W0])
       (simp_all add: C100_def read_loop_size_of_def)
  then obtain l where l: "fixed_loops W0 C100 10 (read_from C100 + 10) [] = Some (Inr l)"
    "length l = 10"
    "map edge_values l = map (\<lambda>k. (unat (read_from C100) + k * unat (10::uint), unat (read_from C100) + (k + 1) * unat (10::uint))) [0..<10]"
    "select_edges W0 C100 [] =
               (if (10::nat) = 0 then Some (Inl Front_of_empty)
                else Some (Inr (l, Iter W0 (read_from C100) (read_from C100 + word_of_nat 10 * 10) 10)))"
    by blast
  have rf: "read_from C100 = 0" by (simp add: C100_def)
  have a1: "fixed_loops W0 C100 10 10 [] = Some (Inr l)" using l(1) by (simp add: rf)
  have a3: "map edge_values l = [(0, 10), (10, 20), (20, 30), (30, 40), (40, 50), (50, 60), (60, 70), (70, 80), (80, 90), (90, 100)]"
    using l(3) m10 by (simp add: rf)
  have a4: "select_edges W0 C100 [] = Some (Inr (l, [0, 10, 20, 30, 40, 50, 60, 70, 80, 90, 100]))"
    using l(4) I100 by (simp add: rf)
  have a: "\<exists>loops. fixed_loops W0 C100 10 10 [] = Some (Inr loops)
      \<and> length loops = 10
      \<and> map edge_values loops =
          [(0, 10), (10, 20), (20, 30), (30, 40), (40, 50), (50, 60), (60, 70), (70, 80), (80, 90), (90, 100)]
      \<and> select_edges W0 C100 [] = Some (Inr (loops, [0, 10, 20, 30, 40, 50, 60, 70, 80, 90, 100]))"
    by (intro exI [of _ l] conjI a1 l(2) a3 a4)
  have "\<exists>loops. fixed_loops W0 C95 10 (read_from C95 + 10) [] = Some (Inr loops)
           \<and> length loops = 9
           \<and> map edge_values loops =
               map (\<lambda>k. (unat (read_from C95) + k * unat (10::uint), unat (read_from C95) + (k + 1) * unat (10::uint))) [0..<9]
           \<and> unat (read_from C95) + 9 * unat (10::uint) \<le> unat (read_to C95)
           \<and> unat (read_to C95) < unat (read_from C95) + (9 + 1) * unat (10::uint)
           \<and> select_edges W0 C95 [] =
               (if (9::nat) = 0 then Some (Inl Front_of_empty)
                else Some (Inr (loops, Iter W0 (read_from C95) (read_from C95 + word_of_nat 9 * 10) 10)))"
    by (rule fixed_mode_edge_indices [where c = C95 and L = 10 and n = 9 and w = W0])
       (simp_all add: C95_def read_loop_size_of_def)
  then obtain k where k: "fixed_loops W0 C95 10 (read_from C95 + 10) [] = Some (Inr k)"
    "length k = 9"
    "map edge_values k = map (\<lambda>k. (unat (read_from C95) + k * unat (10::uint), unat (read_from C95) + (k + 1) * unat (10::uint))) [0..<9]"
    "select_edges W0 C95 [] =
               (if (9::nat) = 0 then Some (Inl Front_of_empty)
                else Some (Inr (k, Iter W0 (read_from C95) (read_from C95 + word_of_nat 9 * 10) 10)))"
    by blast
  have rf': "read_from C95 = 0" by (simp add: C95_def)
  have b1: "fixed_loops W0 C95 10 10 [] = Some (Inr k)" using k(1) by (simp add: rf')
  have b3: "map edge_values k = [(0, 10), (10, 20), (20, 30), (30, 40), (40, 50), (50, 60), (60, 70), (70, 80), (80, 90)]"
    using k(3) m9 by (simp add: rf')
  have b4: "select_edges W0 C95 [] = Some (Inr (k, [0, 10, 20, 30, 40, 50, 60, 70, 80, 90]))"
    using k(4) I90 by (simp add: rf')
  have b: "\<exists>loops. fixed_loops W0 C95 10 10 [] = Some (Inr loops)
      \<and> length loops = 9
      \<and> map edge_values loops =
          [(0, 10), (10, 20), (20, 30), (30, 40), (40, 50), (50, 60), (60, 70), (70, 80), (80, 90)]
      \<and> select_edges W0 C95 [] = Some (Inr (loops, [0, 10, 20, 30, 40, 50, 60, 70, 80, 90]))"
    by (intro exI [of _ k] conjI b1 k(2) b3 b4)
  from a b show ?thesis by (rule conjI)
qed

text \<open>
  C2. When \<^verbatim>\<open>prepare_all_loops\<close> returns and the refining aligner has returned one
  transform for each collected edge frame, every loop \<open>i\<close> of the result has the boundary
  transforms \<open>(icp_t[i] * sac_t[i], icp_t[i + 1] * sac_t[i + 1])\<close>; so for adjacent loops the
  second transform of loop \<open>i\<close> is the first transform of loop \<open>i + 1\<close>, and both are the
  composed transform \<open>icp_t[i + 1] * sac_t[i + 1]\<close> of the edge frame they share. (Loops
  beyond the transforms that the aligner returned keep what they had: see
  \<open>global_edge_alignment_Inr\<close>.)
\<close>

theorem edge_transformations_continuous:
  assumes "select_edges w c ls = Some (Inr (loops, efs))"
    and "prepare_all_loops w c ls = Some (Inr loops')"
    and "length (icp_transformations (edge_icp w efs)) = length efs"
  shows "length loops' = length loops
    \<and> (\<forall>i<length loops'. edge_transformations (loops' ! i) =
          (mat_mul w (icp_transformations (edge_icp w efs) ! i)
                     (sac_transformations (edge_sac w efs) ! i),
           mat_mul w (icp_transformations (edge_icp w efs) ! (i + 1))
                     (sac_transformations (edge_sac w efs) ! (i + 1))))
    \<and> (\<forall>i. i + 1 < length loops' \<longrightarrow>
          snd (edge_transformations (loops' ! i)) = fst (edge_transformations (loops' ! (i + 1)))
          \<and> snd (edge_transformations (loops' ! i)) =
              mat_mul w (icp_transformations (edge_icp w efs) ! (i + 1))
                        (sac_transformations (edge_sac w efs) ! (i + 1)))"
proof -
  from prepare_all_loops_Inr [OF assms(2)] assms(1)
  have len: "length loops + 1 = length efs"
    and run: "global_edge_alignment w loops efs = Inr loops'"
    by auto
  note g = global_edge_alignment_Inr [OF run]
  from g have l: "length loops' = length loops" by (rule conjunct1)
  have et: "edge_transformations (loops' ! i) =
          (mat_mul w (icp_transformations (edge_icp w efs) ! i)
                     (sac_transformations (edge_sac w efs) ! i),
           mat_mul w (icp_transformations (edge_icp w efs) ! (i + 1))
                     (sac_transformations (edge_sac w efs) ! (i + 1)))"
    if "i < length loops'" for i
  proof -
    from that l have i: "i < length loops" by simp
    with len assms(3) have "i + 1 < length (icp_transformations (edge_icp w efs))" by simp
    with g i have "loops' ! i =
      aligned_loop w (filters_filter w efs) (icp_transformations (edge_icp w efs))
        (sac_transformations (edge_sac w efs)) (sac_keypoints (edge_sac w efs)) i (loops ! i)"
      by simp
    then show ?thesis by (simp add: aligned_loop_def)
  qed
  have "snd (edge_transformations (loops' ! i)) = fst (edge_transformations (loops' ! (i + 1)))
          \<and> snd (edge_transformations (loops' ! i)) =
              mat_mul w (icp_transformations (edge_icp w efs) ! (i + 1))
                        (sac_transformations (edge_sac w efs) ! (i + 1))"
    if "i + 1 < length loops'" for i
  proof -
    from that have "i < length loops'" by simp
    from et [OF this] et [OF that] show ?thesis by simp
  qed
  with l et show ?thesis by blast
qed

theorem edge_transformations_continuous_witness:
  "select_edges W0 C30 [] =
     Some (Inr ([new_loop 0 10, new_loop 10 20, new_loop 20 30], [0, 10, 20, 30]))
   \<and> length (icp_transformations (edge_icp W0 [0, 10, 20, 30])) = length [0, 10, 20, 30::nat]
   \<and> prepare_all_loops W0 C30 [] =
     Some (Inr [(new_loop 0 10)\<lparr>edge_frames := (0, 10), edge_keypoints := 0,
             edge_transformations := ([100, 0], [110, 10])\<rparr>,
          (new_loop 10 20)\<lparr>edge_frames := (10, 20), edge_keypoints := 10,
             edge_transformations := ([110, 10], [120, 20])\<rparr>,
          (new_loop 20 30)\<lparr>edge_frames := (20, 30), edge_keypoints := 20,
             edge_transformations := ([120, 20], [130, 30])\<rparr>])
   \<and> snd (edge_transformations
        ([(new_loop 0 10)\<lparr>edge_frames := (0, 10), edge_keypoints := 0,
             edge_transformations := ([100, 0], [110, 10])\<rparr>,
          (new_loop 10 20)\<lparr>edge_frames := (10, 20), edge_keypoints := 10,
             edge_transformations := ([110, 10], [120, 20])\<rparr>,
          (new_loop 20 30)\<lparr>edge_frames := (20, 30), edge_keypoints := 20,
             edge_transformations := ([120, 20], [130, 30])\<rparr>] ! 0)) =
     fst (edge_transformations
        ([(new_loop 0 10)\<lparr>edge_frames := (0, 10), edge_keypoints := 0,
             edge_transformations := ([100, 0], [110, 10])\<rparr>,
          (new_loop 10 20)\<lparr>edge_frames := (10, 20), edge_keypoints := 10,
             edge_transformations := ([110, 10], [120, 20])\<rparr>,
          (new_loop 20 30)\<lparr>edge_frames := (20, 30), edge_keypoints := 20,
             edge_transformations := ([120, 20], [130, 30])\<rparr>] ! (0 + 1)))"
proof -
  have h3: "length (icp_transformations (edge_icp W0 [0, 10, 20, 30])) = length [0, 10, 20, 30::nat]"
    by (simp add: edge_aligners_W0)
  note t = edge_transformations_continuous [OF select_edges_C30 prepare_all_loops_C30 h3]
  from t have "\<forall>i. i + 1 < length
        [(new_loop 0 10)\<lparr>edge_frames := (0, 10), edge_keypoints := 0,
             edge_transformations := ([100, 0], [110, 10])\<rparr>,
          (new_loop 10 20)\<lparr>edge_frames := (10, 20), edge_keypoints := 10,
             edge_transformations := ([110, 10], [120, 20])\<rparr>,
          (new_loop 20 30)\<lparr>edge_frames := (20, 30), edge_keypoints := 20,
             edge_transformations := ([120, 20], [130, 30])\<rparr>] \<longrightarrow>
     snd (edge_transformations
        ([(new_loop 0 10)\<lparr>edge_frames := (0, 10), edge_keypoints := 0,
             edge_transformations := ([100, 0], [110, 10])\<rparr>,
          (new_loop 10 20)\<lparr>edge_frames := (10, 20), edge_keypoints := 10,
             edge_transformations := ([110, 10], [120, 20])\<rparr>,
          (new_loop 20 30)\<lparr>edge_frames := (20, 30), edge_keypoints := 20,
             edge_transformations := ([120, 20], [130, 30])\<rparr>] ! i)) =
     fst (edge_transformations
        ([(new_loop 0 10)\<lparr>edge_frames := (0, 10), edge_keypoints := 0,
             edge_transformations := ([100, 0], [110, 10])\<rparr>,
          (new_loop 10 20)\<lparr>edge_frames := (10, 20), edge_keypoints := 10,
             edge_transformations := ([110, 10], [120, 20])\<rparr>,
          (new_loop 20 30)\<lparr>edge_frames := (20, 30), edge_keypoints := 20,
             edge_transformations := ([120, 20], [130, 30])\<rparr>] ! (i + 1)))"
    by blast
  then have c: "snd (edge_transformations
        ([(new_loop 0 10)\<lparr>edge_frames := (0, 10), edge_keypoints := 0,
             edge_transformations := ([100, 0], [110, 10])\<rparr>,
          (new_loop 10 20)\<lparr>edge_frames := (10, 20), edge_keypoints := 10,
             edge_transformations := ([110, 10], [120, 20])\<rparr>,
          (new_loop 20 30)\<lparr>edge_frames := (20, 30), edge_keypoints := 20,
             edge_transformations := ([120, 20], [130, 30])\<rparr>] ! 0)) =
     fst (edge_transformations
        ([(new_loop 0 10)\<lparr>edge_frames := (0, 10), edge_keypoints := 0,
             edge_transformations := ([100, 0], [110, 10])\<rparr>,
          (new_loop 10 20)\<lparr>edge_frames := (10, 20), edge_keypoints := 10,
             edge_transformations := ([110, 10], [120, 20])\<rparr>,
          (new_loop 20 30)\<lparr>edge_frames := (20, 30), edge_keypoints := 20,
             edge_transformations := ([120, 20], [130, 30])\<rparr>] ! (0 + 1)))"
    by (rule allE [where x = 0]) simp
  show ?thesis by (intro conjI select_edges_C30 h3 prepare_all_loops_C30 c)
qed

text \<open>
  C3. When the interior alignment of a loop returns, its result has one transform for each
  transform of the refining aligner, and the \<open>i\<close>-th (index 0 included) is the refining
  transform multiplied from the left onto the coarse one, \<open>icp_t[i] * sac_t[i]\<close>; it does
  return whenever the coarse aligner gave at least as many transforms. The coarse aligner is
  run on the filtered frames of the loop with the loop's first boundary transform as initial
  transform, the refining aligner on the coarse aligner's frames with the identity.
\<close>

theorem interior_alignment_refine_times_coarse:
  "(interior_alignment w c loop = Inr result_t \<longrightarrow>
      length result_t = length (icp_transformations (inner_icp w c loop))
      \<and> (\<forall>i<length result_t.
            result_t ! i = mat_mul w (icp_transformations (inner_icp w c loop) ! i)
                                     (sac_transformations (inner_sac w c loop) ! i)))
   \<and> (length (icp_transformations (inner_icp w c loop))
        \<le> length (sac_transformations (inner_sac w c loop)) \<longrightarrow>
      (\<exists>r. interior_alignment w c loop = Inr r))
   \<and> inner_sac w c loop =
       sac_align w
         (filters_filter w
            (Iter w (fst (edge_frames_indexes loop)) (snd (edge_frames_indexes loop)) (read_step c)))
         (fst (edge_transformations loop))
   \<and> inner_icp w c loop =
       icp_align w (sac_frames (inner_sac w c loop)) (Identity w)
         (sac_transformed_keypoints (inner_sac w c loop))"
proof (intro conjI impI)
  assume a: "interior_alignment w c loop = Inr result_t"
  from interior_alignment_Inr [OF a]
  show "length result_t = length (icp_transformations (inner_icp w c loop))" by simp
  from interior_alignment_Inr [OF a]
  show "\<forall>i<length result_t.
            result_t ! i = mat_mul w (icp_transformations (inner_icp w c loop) ! i)
                                     (sac_transformations (inner_sac w c loop) ! i)"
    by simp
next
  assume "length (icp_transformations (inner_icp w c loop))
        \<le> length (sac_transformations (inner_sac w c loop))"
  then show "\<exists>r. interior_alignment w c loop = Inr r"
    by (simp add: interior_alignment_def compose_transformations_total)
next
  show "inner_sac w c loop =
       sac_align w
         (filters_filter w
            (Iter w (fst (edge_frames_indexes loop)) (snd (edge_frames_indexes loop)) (read_step c)))
         (fst (edge_transformations loop))"
    by (simp add: inner_sac_def)
next
  show "inner_icp w c loop =
       icp_align w (sac_frames (inner_sac w c loop)) (Identity w)
         (sac_transformed_keypoints (inner_sac w c loop))"
    by (simp add: inner_icp_def)
qed

theorem interior_alignment_refine_times_coarse_witness:
  "interior_alignment W0 C_loop L14 = Inr [[110, 7, 10], [120, 7, 20], [130, 7, 30], [140, 7, 40]]
   \<and> icp_transformations (inner_icp W0 C_loop L14) = [[110], [120], [130], [140]]
   \<and> sac_transformations (inner_sac W0 C_loop L14) = [[7, 10], [7, 20], [7, 30], [7, 40]]
   \<and> fst (edge_transformations L14) = [7] \<and> Identity W0 = []
   \<and> [[110, 7, 10], [120, 7, 20], [130, 7, 30], [140, 7, 40]] ! 0
        = mat_mul W0 ([[110], [120], [130], [140]] ! 0) ([[7, 10], [7, 20], [7, 30], [7, 40]] ! 0)
   \<and> [[110, 7, 10], [120, 7, 20], [130, 7, 30], [140, 7, 40]] ! 0
        \<noteq> mat_mul W0 ([[7, 10], [7, 20], [7, 30], [7, 40]] ! 0) ([[110], [120], [130], [140]] ! 0)
   \<and> [[110, 7, 10], [120, 7, 20], [130, 7, 30], [140, 7, 40]] ! 2
        = mat_mul W0 ([[110], [120], [130], [140]] ! 2) ([[7, 10], [7, 20], [7, 30], [7, 40]] ! 2)"
proof -
  have h: "interior_alignment W0 C_loop L14 =
      Inr [[110, 7, 10], [120, 7, 20], [130, 7, 30], [140, 7, 40]]"
    by (rule interior_alignment_L14)
  have "\<forall>i<length [[110, 7, 10], [120, 7, 20], [130, 7, 30], [140, 7, 40::nat]].
      [[110, 7, 10], [120, 7, 20], [130, 7, 30], [140, 7, 40]] ! i =
        mat_mul W0 (icp_transformations (inner_icp W0 C_loop L14) ! i)
                   (sac_transformations (inner_sac W0 C_loop L14) ! i)"
    by (rule interior_alignment_refine_times_coarse
        [THEN conjunct1, THEN mp, OF h, THEN conjunct2])
  then have nth: "\<forall>i<4. [[110, 7, 10], [120, 7, 20], [130, 7, 30], [140, 7, 40::nat]] ! i =
        mat_mul W0 ([[110], [120], [130], [140]] ! i) ([[7, 10], [7, 20], [7, 30], [7, 40]] ! i)"
    by (simp add: inner_icp_L14 inner_sac_L14)
  have rev: "[[110, 7, 10], [120, 7, 20], [130, 7, 30], [140, 7, 40]] ! 0
        \<noteq> mat_mul W0 ([[7, 10], [7, 20], [7, 30], [7, 40]] ! 0) ([[110], [120], [130], [140]] ! 0)"
    by (simp add: mat_mul_W0)
  have seed: "fst (edge_transformations L14) = [7]" "Identity W0 = []"
    by (simp_all add: L14_def W0_def)
  from nth have n0: "[[110, 7, 10], [120, 7, 20], [130, 7, 30], [140, 7, 40::nat]] ! 0 =
        mat_mul W0 ([[110], [120], [130], [140]] ! 0) ([[7, 10], [7, 20], [7, 30], [7, 40]] ! 0)"
    by (rule allE [where x = 0]) simp
  from nth have n2: "[[110, 7, 10], [120, 7, 20], [130, 7, 30], [140, 7, 40::nat]] ! 2 =
        mat_mul W0 ([[110], [120], [130], [140]] ! 2) ([[7, 10], [7, 20], [7, 30], [7, 40]] ! 2)"
    by (rule allE [where x = 2]) simp
  show ?thesis
    by (intro conjI h seed n0 n2 rev) (simp_all add: inner_icp_L14 inner_sac_L14)
qed

text \<open>
  C4. A correction pass (the loop started at index 1) keeps the length of \<open>result_t\<close>,
  leaves index 0 as it was, and replaces every index \<open>i \<ge> 1\<close> below both lengths by
  \<open>corr_t[i] * result_t[i]\<close>. With the correction enabled, a processed loop's transforms
  are the result of the two passes (first ELCH, then LUM on its output), as many as before
  the correction, and the one at index 0 is the transform at index 0 before the correction.
\<close>

theorem correction_leaves_index_zero:
  "(apply_correction w corr_t 1 rt = Inr r \<longrightarrow>
      length r = length rt
      \<and> (rt \<noteq> [] \<longrightarrow> r ! 0 = rt ! 0)
      \<and> (\<forall>i. 1 \<le> i \<and> i < length corr_t \<and> i < length rt \<longrightarrow>
             r ! i = mat_mul w (corr_t ! i) (rt ! i)))
   \<and> (ELCH_LUM c \<and> interior_alignment w c loop = Inr result_t
        \<and> process_one_loop w c loop = Inr loop' \<longrightarrow>
      (\<exists>r1. apply_correction w (correction_transformations (elch_of w c loop result_t)) 1 result_t
               = Inr r1
          \<and> apply_correction w
               (correction_transformations (lum_of w loop (elch_of w c loop result_t) r1)) 1 r1
               = Inr (inner_transformations loop'))
      \<and> length (inner_transformations loop') = length result_t
      \<and> (result_t \<noteq> [] \<longrightarrow> inner_transformations loop' ! 0 = result_t ! 0))"
proof (intro conjI impI)
  assume a: "apply_correction w corr_t 1 rt = Inr r"
  note f = apply_correction_Inr [OF a]
  from f show len: "length r = length rt" by (rule conjunct1)
  from f have nth: "\<And>j. j < length rt \<Longrightarrow> r ! j =
      (if 1 \<le> j \<and> j < length corr_t then mat_mul w (corr_t ! j) (rt ! j) else rt ! j)"
    by blast
  show "\<forall>i. 1 \<le> i \<and> i < length corr_t \<and> i < length rt \<longrightarrow>
             r ! i = mat_mul w (corr_t ! i) (rt ! i)"
  proof (intro allI impI)
    fix i assume "1 \<le> i \<and> i < length corr_t \<and> i < length rt"
    then show "r ! i = mat_mul w (corr_t ! i) (rt ! i)" using nth [of i] by simp
  qed
  assume "rt \<noteq> []"
  then have "0 < length rt" by simp
  from nth [OF this] show "r ! 0 = rt ! 0" by simp
next
  assume a: "ELCH_LUM c \<and> interior_alignment w c loop = Inr result_t
        \<and> process_one_loop w c loop = Inr loop'"
  from a process_one_loop_Inr [of w c loop loop']
  have "loop_closure_correction w c loop result_t = Inr (inner_transformations loop')"
    by auto
  from loop_closure_correction_Inr [OF this]
  obtain r1 where r1: "apply_correction w (correction_transformations (elch_of w c loop result_t)) 1 result_t
               = Inr r1"
    and r2: "apply_correction w
               (correction_transformations (lum_of w loop (elch_of w c loop result_t) r1)) 1 r1
               = Inr (inner_transformations loop')"
    by blast
  then show "\<exists>r1. apply_correction w (correction_transformations (elch_of w c loop result_t)) 1 result_t
               = Inr r1
          \<and> apply_correction w
               (correction_transformations (lum_of w loop (elch_of w c loop result_t) r1)) 1 r1
               = Inr (inner_transformations loop')"
    by blast
  note f1 = apply_correction_Inr [OF r1] and f2 = apply_correction_Inr [OF r2]
  from f1 have l1: "length r1 = length result_t" by (rule conjunct1)
  from f2 have l2: "length (inner_transformations loop') = length r1" by (rule conjunct1)
  from l1 l2 show "length (inner_transformations loop') = length result_t" by simp
  assume "result_t \<noteq> []"
  then have pos: "0 < length result_t" by simp
  from f1 pos have z1: "r1 ! 0 = result_t ! 0" by simp
  from f2 pos l1 have z2: "inner_transformations loop' ! 0 = r1 ! 0" by simp
  from z1 z2 show "inner_transformations loop' ! 0 = result_t ! 0" by simp
qed

theorem correction_leaves_index_zero_witness:
  "apply_correction W0 [[210], [220], [230], [240]] 1
     [[110, 7, 10], [120, 7, 20], [130, 7, 30], [140, 7, 40]] =
     Inr [[110, 7, 10], [220, 120, 7, 20], [230, 130, 7, 30], [240, 140, 7, 40]]
   \<and> [[110, 7, 10], [220, 120, 7, 20], [230, 130, 7, 30], [240, 140, 7, 40]] ! 0 =
       [[110, 7, 10], [120, 7, 20], [130, 7, 30], [140, 7, 40::nat]] ! 0
   \<and> ELCH_LUM C_loop
   \<and> interior_alignment W0 C_loop L14 =
       Inr [[110, 7, 10], [120, 7, 20], [130, 7, 30], [140, 7, 40]]
   \<and> process_one_loop W0 C_loop L14 =
       Inr (L14\<lparr>inner_transformations :=
               [[110, 7, 10], [320, 220, 120, 7, 20], [330, 230, 130, 7, 30], [340, 240, 140, 7, 40]],
             inner_t_fitness_scores := [10, 20, 30, 40]\<rparr>)
   \<and> inner_transformations (L14\<lparr>inner_transformations :=
               [[110, 7, 10], [320, 220, 120, 7, 20], [330, 230, 130, 7, 30], [340, 240, 140, 7, 40]],
             inner_t_fitness_scores := [10, 20, 30, 40]\<rparr>) ! 0 =
       [[110, 7, 10], [120, 7, 20], [130, 7, 30], [140, 7, 40::nat]] ! 0"
proof -
  have h1: "apply_correction W0 [[210], [220], [230], [240]] 1
     [[110, 7, 10], [120, 7, 20], [130, 7, 30], [140, 7, 40]] =
     Inr [[110, 7, 10], [220, 120, 7, 20], [230, 130, 7, 30], [240, 140, 7, 40]]"
    using apply_correction_example by simp
  note h2 = ELCH_LUM_C_loop and h3 = interior_alignment_L14 and h4 = process_one_loop_L14
  have ne: "[[110, 7, 10], [120, 7, 20], [130, 7, 30], [140, 7, 40::nat]] \<noteq> []" by simp
  note t = correction_leaves_index_zero [where w = W0 and c = C_loop and loop = L14]
  from t [THEN conjunct1, THEN mp, OF h1, THEN conjunct2, THEN conjunct1, THEN mp, OF ne]
  have c1: "[[110, 7, 10], [220, 120, 7, 20], [230, 130, 7, 30], [240, 140, 7, 40]] ! 0 =
       [[110, 7, 10], [120, 7, 20], [130, 7, 30], [140, 7, 40::nat]] ! 0" .
  from t [THEN conjunct2, THEN mp, OF conjI [OF h2 conjI [OF h3 h4]],
          THEN conjunct2, THEN conjunct2, THEN mp, OF ne]
  have c2: "inner_transformations (L14\<lparr>inner_transformations :=
               [[110, 7, 10], [320, 220, 120, 7, 20], [330, 230, 130, 7, 30], [340, 240, 140, 7, 40]],
             inner_t_fitness_scores := [10, 20, 30, 40]\<rparr>) ! 0 =
       [[110, 7, 10], [120, 7, 20], [130, 7, 30], [140, 7, 40::nat]] ! 0" .
  show ?thesis by (intro conjI h1 c1 h2 h3 h4 c2)
qed

text \<open>
  C5. With the correction disabled, a processed loop's \<open>inner_transformations\<close> are exactly
  the result of the interior alignment (\<open>icp_t[i] * sac_t[i]\<close> for every frame), its fitness
  scores are those of the refining aligner, and the loop is processed whenever the interior
  alignment returns.
\<close>

theorem correction_disabled_keeps_result:
  assumes "\<not> ELCH_LUM c"
  shows "(process_one_loop w c loop = Inr loop' \<longrightarrow>
            interior_alignment w c loop = Inr (inner_transformations loop')
            \<and> inner_transformations loop' =
                map (\<lambda>i. mat_mul w (icp_transformations (inner_icp w c loop) ! i)
                                   (sac_transformations (inner_sac w c loop) ! i))
                    [0..<length (icp_transformations (inner_icp w c loop))]
            \<and> inner_t_fitness_scores loop' = icp_fitness_scores (inner_icp w c loop))
         \<and> (interior_alignment w c loop = Inr result_t \<longrightarrow>
            process_one_loop w c loop =
              Inr (loop\<lparr>inner_transformations := result_t,
                        inner_t_fitness_scores := icp_fitness_scores (inner_icp w c loop)\<rparr>))"
proof (intro conjI impI)
  assume a: "process_one_loop w c loop = Inr loop'"
  from process_one_loop_Inr [OF a] assms
  obtain result_t where r: "interior_alignment w c loop = Inr result_t"
    and e: "result_t = inner_transformations loop'"
    and l: "loop' = loop\<lparr>inner_transformations := inner_transformations loop',
                            inner_t_fitness_scores := icp_fitness_scores (inner_icp w c loop)\<rparr>"
    by auto
  from r e show i: "interior_alignment w c loop = Inr (inner_transformations loop')" by simp
  from interior_alignment_Inr [OF i]
  show "inner_transformations loop' =
                map (\<lambda>i. mat_mul w (icp_transformations (inner_icp w c loop) ! i)
                                   (sac_transformations (inner_sac w c loop) ! i))
                    [0..<length (icp_transformations (inner_icp w c loop))]" .
  from arg_cong [OF l, of inner_t_fitness_scores]
  show "inner_t_fitness_scores loop' = icp_fitness_scores (inner_icp w c loop)" by simp
next
  assume "interior_alignment w c loop = Inr result_t"
  with assms show "process_one_loop w c loop =
              Inr (loop\<lparr>inner_transformations := result_t,
                        inner_t_fitness_scores := icp_fitness_scores (inner_icp w c loop)\<rparr>)"
    by (simp add: process_one_loop_def)
qed

theorem correction_disabled_keeps_result_witness:
  "\<not> ELCH_LUM C_off
   \<and> interior_alignment W0 C_off L14 =
       Inr [[110, 7, 10], [120, 7, 20], [130, 7, 30], [140, 7, 40]]
   \<and> process_one_loop W0 C_off L14 =
       Inr (L14\<lparr>inner_transformations := [[110, 7, 10], [120, 7, 20], [130, 7, 30], [140, 7, 40]],
                 inner_t_fitness_scores := icp_fitness_scores (inner_icp W0 C_off L14)\<rparr>)
   \<and> icp_fitness_scores (inner_icp W0 C_off L14) = [10, 20, 30, 40]"
proof -
  have h1: "\<not> ELCH_LUM C_off" by (simp add: C_off_def)
  have h2: "interior_alignment W0 C_off L14 =
       Inr [[110, 7, 10], [120, 7, 20], [130, 7, 30], [140, 7, 40]]"
    by (simp add: inner_C_off interior_alignment_L14)
  note t = correction_disabled_keeps_result [OF h1, where w = W0 and loop = L14]
  note c = t [THEN conjunct2, THEN mp, OF h2]
  have s: "icp_fitness_scores (inner_icp W0 C_off L14) = [10, 20, 30, 40]"
    by (simp add: inner_C_off inner_icp_L14)
  show ?thesis by (intro conjI h1 h2 c s)
qed

text \<open>
  C6. In either mode, once the edges are selected and the edge frames collected: if the
  number of edge frames is not the number of loops plus one, \<^verbatim>\<open>prepare_all_loops\<close> ends
  with the \<^verbatim>\<open>std::runtime_error\<close>, whatever the filter and the two aligners are (none of
  them has run); if it does not end with that error, the number of loops is the number of
  edge frames minus one and the result is that of the edge alignment. A preparation that
  returns has selected as many loops as it returns, one fewer than the edge frames.
\<close>

theorem consistency_check_before_alignment:
  "(select_edges w c ls = Some (Inr (loops, efs)) \<and> length efs \<noteq> length loops + 1 \<longrightarrow>
      prepare_all_loops (w\<lparr>filters_filter := f, sac_align := s, icp_align := a\<rparr>) c ls
        = Some (Inl Runtime_error))
   \<and> (select_edges w c ls = Some (Inr (loops, efs))
        \<and> prepare_all_loops w c ls \<noteq> Some (Inl Runtime_error) \<longrightarrow>
      length loops = length efs - 1 \<and> length efs = length loops + 1
      \<and> prepare_all_loops w c ls = Some (global_edge_alignment w loops efs))
   \<and> (prepare_all_loops w c ls = Some (Inr loops') \<longrightarrow>
      (\<exists>loops efs. select_edges w c ls = Some (Inr (loops, efs))
         \<and> length loops = length efs - 1 \<and> length loops' = length loops))"
proof (intro conjI impI)
  assume a: "select_edges w c ls = Some (Inr (loops, efs)) \<and> length efs \<noteq> length loops + 1"
  then have "select_edges (w\<lparr>filters_filter := f, sac_align := s, icp_align := a\<rparr>) c ls
      = Some (Inr (loops, efs))"
    by (simp add: select_edges_update)
  with a show "prepare_all_loops (w\<lparr>filters_filter := f, sac_align := s, icp_align := a\<rparr>) c ls
        = Some (Inl Runtime_error)"
    by (auto simp add: prepare_all_loops_def)
next
  assume a: "select_edges w c ls = Some (Inr (loops, efs))
        \<and> prepare_all_loops w c ls \<noteq> Some (Inl Runtime_error)"
  then have eq: "length loops + 1 = length efs"
    by (auto simp add: prepare_all_loops_def split: if_splits)
  then show "length loops = length efs - 1" by simp
  from eq show "length efs = length loops + 1" by simp
  from a eq show "prepare_all_loops w c ls = Some (global_edge_alignment w loops efs)"
    by (simp add: prepare_all_loops_def)
next
  assume a: "prepare_all_loops w c ls = Some (Inr loops')"
  from prepare_all_loops_Inr [OF a]
  obtain loops efs where s: "select_edges w c ls = Some (Inr (loops, efs))"
    and l: "length loops + 1 = length efs"
    and g: "global_edge_alignment w loops efs = Inr loops'"
    by blast
  from global_edge_alignment_Inr [OF g] have "length loops' = length loops" by (rule conjunct1)
  with s l show "\<exists>loops efs. select_edges w c ls = Some (Inr (loops, efs))
         \<and> length loops = length efs - 1 \<and> length loops' = length loops"
    by auto
qed

theorem consistency_check_before_alignment_witness:
  "select_edges W_gap C30 [] =
     Some (Inr ([new_loop 0 10, new_loop 10 20, new_loop 20 30], [0, 10, 20]))
   \<and> length [0, 10, 20::nat] \<noteq> length [new_loop 0 10, new_loop 10 20, new_loop 20 30] + 1
   \<and> prepare_all_loops
       (W_gap\<lparr>filters_filter := rev, sac_align := sac_align W0, icp_align := icp_align W0\<rparr>)
       C30 [] = Some (Inl Runtime_error)
   \<and> select_edges W_bal C_bal [] = Some (Inr ([new_loop 0 20, new_loop 20 40], [0, 20, 40]))
   \<and> prepare_all_loops W_bal C_bal [] \<noteq> Some (Inl Runtime_error)
   \<and> length [new_loop 0 20, new_loop 20 40] = length [0, 20, 40::nat] - 1"
proof -
  have h1: "length [0, 10, 20::nat] \<noteq> length [new_loop 0 10, new_loop 10 20, new_loop 20 30] + 1"
    by simp
  note c1 = consistency_check_before_alignment [THEN conjunct1, THEN mp,
      OF conjI [OF select_edges_gap h1]]
  have h2: "prepare_all_loops W_bal C_bal [] \<noteq> Some (Inl Runtime_error)"
    by (simp add: prepare_all_loops_bal)
  note c2 = consistency_check_before_alignment [THEN conjunct2, THEN conjunct1, THEN mp,
      OF conjI [OF select_edges_bal h2], THEN conjunct1]
  show ?thesis by (intro conjI select_edges_gap h1 c1 select_edges_bal h2 c2)
qed

text \<open>
  C7. A Loop whose two boundary indices are equal is refused by the constructor with
  \<^verbatim>\<open>std::invalid_argument\<close>; with \<open>start < end\<close> the constructor returns the Loop with
  these indices and both boundary transforms the identity. In fixed mode a zero
  \<open>read_loop_size\<close> makes the first Loop zero-length, and the exception leaves
  \<^verbatim>\<open>prepare_all_loops\<close> before any frame is read or aligned.
\<close>

theorem Loop_zero_length_invalid:
  "Loop_ctor w s s = Inl Invalid_argument
   \<and> (s < e \<longrightarrow> Loop_ctor w s e =
         Inr \<lparr>edge_frames_indexes = (s, e), edge_frames = (Frame0 w, Frame0 w),
              edge_keypoints = Keypoints0 w, edge_transformations = (Identity w, Identity w),
              inner_transformations = [], inner_t_fitness_scores = []\<rparr>)
   \<and> (\<not> EDGE_BALANCING c \<and> read_loop_size_of c = 0 \<and> read_from c \<le> read_to c
        \<longrightarrow> prepare_all_loops w c ls = Some (Inl Invalid_argument))"
proof (intro conjI impI)
  show "Loop_ctor w s s = Inl Invalid_argument" by (rule Loop_ctor_eq)
next
  assume "s < e"
  then have "s \<noteq> e" by auto
  then show "Loop_ctor w s e =
         Inr \<lparr>edge_frames_indexes = (s, e), edge_frames = (Frame0 w, Frame0 w),
              edge_keypoints = Keypoints0 w, edge_transformations = (Identity w, Identity w),
              inner_transformations = [], inner_t_fitness_scores = []\<rparr>"
    by (rule Loop_ctor_neq)
next
  assume a: "\<not> EDGE_BALANCING c \<and> read_loop_size_of c = 0 \<and> read_from c \<le> read_to c"
  then have "fixed_loops w c 0 (read_from c) ls = Some (Inl Invalid_argument)"
    by (simp add: fixed_loops_zero_step)
  with a show "prepare_all_loops w c ls = Some (Inl Invalid_argument)"
    by (simp add: prepare_all_loops_def select_edges_def fixed_edges_def)
qed

theorem Loop_zero_length_invalid_witness:
  "Loop_ctor W0 3 3 = (Inl Invalid_argument :: error + (nat, nat, nat list, nat) Loop)
   \<and> (3::uint) < 7
   \<and> Loop_ctor W0 3 7 =
         (Inr \<lparr>edge_frames_indexes = (3, 7), edge_frames = (0, 0),
              edge_keypoints = 0, edge_transformations = ([], []),
              inner_transformations = [], inner_t_fitness_scores = []\<rparr> :: error + (nat, nat, nat list, nat) Loop)
   \<and> prepare_all_loops W0 \<lparr>loop_size = 0, EDGE_BALANCING = False, ELCH_LUM = True,
        read_from = 0, read_to = 100, read_step = 1\<rparr> [] = Some (Inl Invalid_argument)"
  using Loop_zero_length_invalid [where w = W0 and s = 3 and e = 7 and ls = "[]"
    and c = "\<lparr>loop_size = 0, EDGE_BALANCING = False, ELCH_LUM = True,
        read_from = 0, read_to = 100, read_step = 1\<rparr>"]
  by (simp add: W0_def read_loop_size_of_def)

text \<open>
  C8 as stated does not hold: no length is checked. Here the first corrector returns two
  transforms for a loop of four frames (and the second none); the loop is processed without
  an error, and only index 1 is corrected.
\<close>

theorem short_correction_is_no_error:
  "process_one_loop W_short C_loop L14 =
     Inr (L14\<lparr>inner_transformations :=
               [[110, 7, 10], [220, 120, 7, 20], [130, 7, 30], [140, 7, 40]],
             inner_t_fitness_scores := [10, 20, 30, 40]\<rparr>)
   \<and> interior_alignment W_short C_loop L14 =
       Inr [[110, 7, 10], [120, 7, 20], [130, 7, 30], [140, 7, 40]]
   \<and> correction_transformations
        (elch_of W_short C_loop L14 [[110, 7, 10], [120, 7, 20], [130, 7, 30], [140, 7, 40]]) =
       [[210], [220]]"
  by (intro conjI process_one_loop_short interior_alignment_short)
     (simp add: elch_of_def W_short_def)

text \<open>
  C8, amended. A correction that is not longer than \<open>result_t\<close> raises no error: the pass
  applies \<open>corr_t[j]\<close> to the indices \<open>1 \<le> j < length corr_t\<close> and leaves every other
  transform as it is, so a shorter correction is applied to a part of the loop. When both
  correctors return no more transforms than the loop has, the loop is processed.
\<close>

theorem short_correction_applied_partially:
  "(length corr_t \<le> length rt \<longrightarrow>
      (\<exists>r. apply_correction w corr_t 1 rt = Inr r
         \<and> length r = length rt
         \<and> (\<forall>j<length rt. r ! j =
               (if 1 \<le> j \<and> j < length corr_t then mat_mul w (corr_t ! j) (rt ! j) else rt ! j))))
   \<and> (ELCH_LUM c \<and> interior_alignment w c loop = Inr result_t
        \<and> length (correction_transformations (elch_of w c loop result_t)) \<le> length result_t
        \<and> (\<forall>r. length r = length result_t \<longrightarrow>
              length (correction_transformations (lum_of w loop (elch_of w c loop result_t) r))
                \<le> length result_t) \<longrightarrow>
      (\<exists>loop'. process_one_loop w c loop = Inr loop'
         \<and> length (inner_transformations loop') = length result_t))"
proof (intro conjI impI)
  assume "length corr_t \<le> length rt"
  from apply_correction_total [OF this, of w 1]
  obtain r where r: "apply_correction w corr_t 1 rt = Inr r" by blast
  from apply_correction_Inr [OF r] r
  show "\<exists>r. apply_correction w corr_t 1 rt = Inr r
         \<and> length r = length rt
         \<and> (\<forall>j<length rt. r ! j =
               (if 1 \<le> j \<and> j < length corr_t then mat_mul w (corr_t ! j) (rt ! j) else rt ! j))"
    by blast
next
  assume a: "ELCH_LUM c \<and> interior_alignment w c loop = Inr result_t
        \<and> length (correction_transformations (elch_of w c loop result_t)) \<le> length result_t
        \<and> (\<forall>r. length r = length result_t \<longrightarrow>
              length (correction_transformations (lum_of w loop (elch_of w c loop result_t) r))
                \<le> length result_t)"
  then have e: "length (correction_transformations (elch_of w c loop result_t)) \<le> length result_t"
    by blast
  from apply_correction_total [OF e, of w 1]
  obtain r1 where r1: "apply_correction w (correction_transformations (elch_of w c loop result_t)) 1
      result_t = Inr r1" by blast
  from apply_correction_Inr [OF r1] have l1: "length r1 = length result_t" by (rule conjunct1)
  with a have "length (correction_transformations (lum_of w loop (elch_of w c loop result_t) r1))
      \<le> length r1" by simp
  from apply_correction_total [OF this, of w 1]
  obtain r2 where r2: "apply_correction w
      (correction_transformations (lum_of w loop (elch_of w c loop result_t) r1)) 1 r1 = Inr r2"
    by blast
  from apply_correction_Inr [OF r2] l1 have l2: "length r2 = length result_t" by simp
  from r1 r2 have "loop_closure_correction w c loop result_t = Inr r2"
    by (simp add: loop_closure_correction_def Let_def)
  with a have "process_one_loop w c loop =
      Inr (loop\<lparr>inner_transformations := r2,
                inner_t_fitness_scores := icp_fitness_scores (inner_icp w c loop)\<rparr>)"
    by (simp add: process_one_loop_def)
  with l2 show "\<exists>loop'. process_one_loop w c loop = Inr loop'
         \<and> length (inner_transformations loop') = length result_t"
    by simp
qed

theorem short_correction_applied_partially_witness:
  "length [[210], [220::nat]] \<le> length [[110, 7, 10], [120, 7, 20], [130, 7, 30], [140, 7, 40::nat]]
   \<and> apply_correction W0 [[210], [220]] 1
       [[110, 7, 10], [120, 7, 20], [130, 7, 30], [140, 7, 40]] =
       Inr [[110, 7, 10], [220, 120, 7, 20], [130, 7, 30], [140, 7, 40]]"
proof -
  have h: "length [[210], [220::nat]]
      \<le> length [[110, 7, 10], [120, 7, 20], [130, 7, 30], [140, 7, 40::nat]]"
    by simp
  from short_correction_applied_partially [where w = W0, THEN conjunct1, THEN mp, OF h]
  obtain r where r: "apply_correction W0 [[210], [220]] 1
       [[110, 7, 10], [120, 7, 20], [130, 7, 30], [140, 7, 40]] = Inr r"
    by blast
  moreover have "apply_correction W0 [[210], [220]] 1
       [[110, 7, 10], [120, 7, 20], [130, 7, 30], [140, 7, 40]] =
       Inr [[110, 7, 10], [220, 120, 7, 20], [130, 7, 30], [140, 7, 40]]"
    by (simp add: apply_correction.simps mat_mul_W0)
  ultimately show ?thesis using h by simp
qed

text \<open>
  C9. With \<open>end < start\<close> the constructor does not fail: the \<^verbatim>\<open>uint\<close> difference
  \<open>end - start\<close> is zero only for \<open>start = end\<close>, so only that case throws, and a Loop
  with inverted boundary indices is constructed.
\<close>

theorem Loop_inverted_indices_accepted:
  "(e < s \<longrightarrow> Loop_ctor w s e =
         Inr \<lparr>edge_frames_indexes = (s, e), edge_frames = (Frame0 w, Frame0 w),
              edge_keypoints = Keypoints0 w, edge_transformations = (Identity w, Identity w),
              inner_transformations = [], inner_t_fitness_scores = []\<rparr>)
   \<and> ((Loop_ctor w s e :: error + ('f, 'k, 'm, 's) Loop) = Inl Invalid_argument \<longleftrightarrow> s = e)"
  by (auto simp add: Loop_ctor_def)

theorem Loop_inverted_indices_accepted_witness:
  "(3::uint) < 5
   \<and> Loop_ctor W0 5 3 =
         (Inr \<lparr>edge_frames_indexes = (5, 3), edge_frames = (0, 0),
              edge_keypoints = 0, edge_transformations = ([], []),
              inner_transformations = [], inner_t_fitness_scores = []\<rparr> :: error + (nat, nat, nat list, nat) Loop)
   \<and> (Loop_ctor W0 5 3 :: error + (nat, nat, nat list, nat) Loop) \<noteq> Inl Invalid_argument"
  using Loop_inverted_indices_accepted [where w = W0 and s = 5 and e = 3]
  by (simp add: W0_def)

text \<open>
  C10. In fixed mode, started with no loops (a new object), with \<open>L = loop_size * read_step\<close>:
  if \<open>read_to - read_from < L\<close> (as integers, \<open>read_from + L\<close> fitting 32 bits), the loop
  creates no Loop and \<^verbatim>\<open>loops.front()\<close> is called on the empty vector, which is not the
  consistency error; if \<open>read_to - read_from \<ge> L\<close>, \<^verbatim>\<open>front()\<close> and \<^verbatim>\<open>back()\<close>
  are never called on an empty vector, and with \<open>L\<close> not zero and no wrap-around they are
  called on a vector that is not empty.
\<close>

theorem fixed_mode_range_below_one_loop:
  fixes L :: uint
  assumes "\<not> EDGE_BALANCING c" and "L = read_loop_size_of c"
  shows "(unat (read_from c) + unat L < 2 ^ 32
          \<and> int (unat (read_to c)) - int (unat (read_from c)) < int (unat L) \<longrightarrow>
            fixed_loops w c L (read_from c + L) [] = Some (Inr [])
            \<and> select_edges w c [] = Some (Inl Front_of_empty)
            \<and> prepare_all_loops w c [] = Some (Inl Front_of_empty))
       \<and> (int (unat L) \<le> int (unat (read_to c)) - int (unat (read_from c)) \<longrightarrow>
            select_edges w c [] \<noteq> Some (Inl Front_of_empty)
            \<and> prepare_all_loops w c [] \<noteq> Some (Inl Front_of_empty))
       \<and> (int (unat L) \<le> int (unat (read_to c)) - int (unat (read_from c))
          \<and> L \<noteq> 0 \<and> unat (read_to c) + unat L < 2 ^ 32 \<longrightarrow>
            (\<exists>loops efs. select_edges w c [] = Some (Inr (loops, efs)) \<and> loops \<noteq> []))"
proof (intro conjI impI)
  assume a: "unat (read_from c) + unat L < 2 ^ 32
          \<and> int (unat (read_to c)) - int (unat (read_from c)) < int (unat L)"
  then have sum: "unat (read_from c + L) = unat (read_from c) + unat L"
    by (simp add: unat_add_lem [THEN iffD1])
  from a have "unat (read_to c) < unat (read_from c) + unat L" by linarith
  with sum have "\<not> read_from c + L \<le> read_to c" by (simp add: word_le_nat_alt)
  then show run: "fixed_loops w c L (read_from c + L) [] = Some (Inr [])"
    by (rule fixed_loops_stop)
  with assms show sel: "select_edges w c [] = Some (Inl Front_of_empty)"
    by (simp add: select_edges_def fixed_edges_def)
  then show "prepare_all_loops w c [] = Some (Inl Front_of_empty)"
    by (simp add: prepare_all_loops_def)
next
  assume "int (unat L) \<le> int (unat (read_to c)) - int (unat (read_from c))"
  then have le: "unat (read_from c) + unat L \<le> unat (read_to c)" by linarith
  from fixed_edges_no_front [OF assms(2) le, of w] assms(1)
  show sel: "select_edges w c [] \<noteq> Some (Inl Front_of_empty)"
    by (simp add: select_edges_def)
  then show "prepare_all_loops w c [] \<noteq> Some (Inl Front_of_empty)"
    by (rule prepare_all_loops_no_front)
next
  assume a: "int (unat L) \<le> int (unat (read_to c)) - int (unat (read_from c))
          \<and> L \<noteq> 0 \<and> unat (read_to c) + unat L < 2 ^ 32"
  then have le: "unat (read_from c) + unat L \<le> unat (read_to c)" by linarith
  then have rle: "read_from c \<le> read_to c" by (simp add: word_le_nat_alt)
  have Lpos: "0 < unat L" using a by (simp add: unat_gt_0)
  define n where "n = (unat (read_to c) - unat (read_from c)) div unat L"
  have "unat L \<le> unat (read_to c) - unat (read_from c)" using le by linarith
  then have "1 \<le> n" unfolding n_def using Lpos by (simp add: Suc_le_eq div_greater_zero_iff)
  from a have L0: "L \<noteq> 0" and nowrap: "unat (read_to c) + unat L < 2 ^ 32" by simp_all
  from fixed_mode_run [OF assms(1) assms(2) L0 rle nowrap n_def, of w] \<open>1 \<le> n\<close>
  obtain loops where "length loops = n"
    and "select_edges w c [] =
      Some (Inr (loops, Iter w (read_from c) (read_from c + word_of_nat n * L) L))"
    by auto
  with \<open>1 \<le> n\<close> show "\<exists>loops efs. select_edges w c [] = Some (Inr (loops, efs)) \<and> loops \<noteq> []"
    by auto
qed

theorem fixed_mode_range_below_one_loop_witness:
  "\<not> EDGE_BALANCING C_small \<and> read_loop_size_of C_small = 10
   \<and> unat (read_from C_small) + unat (10::uint) < 2 ^ 32
   \<and> int (unat (read_to C_small)) - int (unat (read_from C_small)) < int (unat (10::uint))
   \<and> select_edges W0 C_small [] = Some (Inl Front_of_empty)
   \<and> prepare_all_loops W0 C_small [] = Some (Inl Front_of_empty)
   \<and> \<not> EDGE_BALANCING C100 \<and> read_loop_size_of C100 = 10
   \<and> int (unat (10::uint)) \<le> int (unat (read_to C100)) - int (unat (read_from C100))
   \<and> select_edges W0 C100 [] \<noteq> Some (Inl Front_of_empty)"
proof -
  have a1: "\<not> EDGE_BALANCING C_small" and a2: "read_loop_size_of C_small = 10"
    and a3: "unat (read_from C_small) + unat (10::uint) < 2 ^ 32"
    and a4: "int (unat (read_to C_small)) - int (unat (read_from C_small)) < int (unat (10::uint))"
    by (simp_all add: C_small_def read_loop_size_of_def)
  note t1 = fixed_mode_range_below_one_loop [OF a1 a2 [symmetric], where w = W0,
      THEN conjunct1, THEN mp, OF conjI [OF a3 a4]]
  have b1: "\<not> EDGE_BALANCING C100" and b2: "read_loop_size_of C100 = 10"
    and b3: "int (unat (10::uint)) \<le> int (unat (read_to C100)) - int (unat (read_from C100))"
    by (simp_all add: C100_def read_loop_size_of_def)
  note t2 = fixed_mode_range_below_one_loop [OF b1 b2 [symmetric], where w = W0,
      THEN conjunct2, THEN conjunct1, THEN mp, OF b3]
  show ?thesis
    by (intro conjI a1 a2 a3 a4 b1 b2 b3 t1 [THEN conjunct2, THEN conjunct1]
        t1 [THEN conjunct2, THEN conjunct2] t2 [THEN conjunct1])
qed

end
